theory Spec2Isabelle
  imports Main "HOL-Library.Word"
begin

unbundle bit_operations_syntax

section \<open>Data model of SNAPLib/TenXAligner.cpp\<close>

text \<open>
  Modelled from the spec: the enumeration of alignment outcomes is declared in a header
  outside the source file. The spec lists SingleHit, MultipleHits and NotFound;
  \<open>updateStats\<close> in the source distinguishes exactly these three.
\<close>

datatype AlignmentResult = NotFound | SingleHit | MultipleHits

text \<open>
  Modelled from the spec: \<open>isOneLocation(s)\<close> is true iff \<open>s = SingleHit\<close>.
\<close>

definition isOneLocation :: "AlignmentResult \<Rightarrow> bool" where
  "isOneLocation s = (s = SingleHit)"

text \<open>
  The path without an index fills its result with \<open>memset(&result, 0, sizeof(result))\<close>
  and then counts the pair in \<open>stats->notFound\<close>: the enumerator with value 0, which the
  header outside the source file fixes, is taken to be NotFound.
\<close>

definition zeroAlignmentResult :: AlignmentResult where
  "zeroAlignmentResult = NotFound"

type_synonym GenomeLocation = "64 word"

text \<open>A read, as far as the aligner context looks at it: identifier, data length, N count.\<close>

record Read =
  getId :: string
  getDataLength :: nat
  countOfNs :: nat

text \<open>
  \<open>PairedAlignmentResult\<close>: the two-element arrays of the source are written as two fields,
  index 0 and index 1.
\<close>

record PairedAlignmentResult =
  status0 :: AlignmentResult
  status1 :: AlignmentResult
  location0 :: GenomeLocation
  location1 :: GenomeLocation
  direction0 :: int
  direction1 :: int
  score0 :: int
  score1 :: int
  mapq0 :: int
  mapq1 :: int
  clippingForReadAdjustment0 :: int
  clippingForReadAdjustment1 :: int
  fromAlignTogether :: bool
  alignedAsPair :: bool

record SingleAlignmentResult =
  status :: AlignmentResult
  location :: GenomeLocation
  score :: int
  mapq :: int

text \<open>
  \<open>TenXAlignerOptions\<close>. The first nine fields are the ones its constructor initialises;
  \<open>filterFlags\<close> and \<open>ignoreMismatchedIDs\<close> are inherited from \<open>AlignerOptions\<close>.
  The numeric options hold what \<open>atoi\<close> returned.
\<close>

record TenXAlignerOptions =
  minSpacing :: int
  maxSpacing :: int
  maxBarcodeSize :: int
  minPairsPerCluster :: int
  maxClusterSpan :: int
  forceSpacing :: bool
  intersectingAlignerMaxHits :: int
  maxCandidatePoolSize :: int
  quicklyDropUnpairedReads :: bool
  filterFlags :: "32 word"
  ignoreMismatchedIDs :: bool

text \<open>
  What the file uses but does not define: the read filter \<open>AlignerOptions::passFilter\<close>
  (read, status, tooShort, secondaryAlignment), \<open>readIdsMatch\<close>, the flag bit
  \<open>AlignerOptions::FilterBothMatesMatch\<close>, the sentinel \<open>InvalidGenomeLocation\<close>, and the
  base class parser \<open>AlignerOptions::parse\<close>, which returns its result, the new \<open>n\<close>, the
  \<open>done\<close> flag and the options. They are parameters of the model.
\<close>

record Externals =
  passFilter :: "Read \<Rightarrow> AlignmentResult \<Rightarrow> bool \<Rightarrow> bool \<Rightarrow> bool"
  readIdsMatch :: "Read \<Rightarrow> Read \<Rightarrow> bool"
  FilterBothMatesMatch :: "32 word"
  InvalidGenomeLocation :: GenomeLocation
  AlignerOptions_parse ::
    "string list \<Rightarrow> nat \<Rightarrow> TenXAlignerOptions \<Rightarrow> bool \<times> nat \<times> bool \<times> TenXAlignerOptions"

section \<open>Command line options\<close>

text \<open>
  C's \<open>atoi\<close>: leading white space is skipped, an optional sign is read, then decimal digits
  up to the first other character. The value is the mathematical one; C leaves the result
  undefined when it does not fit an \<open>int\<close>.
\<close>

definition isspace :: "char \<Rightarrow> bool" where
  "isspace c = (of_char c \<in> {32, 9, 10, 11, 12, 13 :: nat})"

definition isdigit :: "char \<Rightarrow> bool" where
  "isdigit c = (48 \<le> (of_char c :: nat) \<and> (of_char c :: nat) \<le> 57)"

fun digitsValue :: "int \<Rightarrow> string \<Rightarrow> int" where
  "digitsValue acc [] = acc"
| "digitsValue acc (c # cs) =
     (if isdigit c then digitsValue (acc * 10 + (of_char c - 48)) cs else acc)"

definition atoi :: "string \<Rightarrow> int" where
  "atoi s =
     (case dropWhile isspace s of
        [] \<Rightarrow> 0
      | c # cs \<Rightarrow>
          if c = CHR ''-'' then - digitsValue 0 cs
          else if c = CHR ''+'' then digitsValue 0 cs
          else digitsValue 0 (c # cs))"

text \<open>
  The constructor \<open>TenXAlignerOptions::TenXAlignerOptions\<close>: \<open>base\<close> is the object as the
  \<open>AlignerOptions\<close> constructor left it, \<open>defaultMaxHits\<close> and \<open>defaultPoolSize\<close> stand for
  \<open>DEFAULT_INTERSECTING_ALIGNER_MAX_HITS\<close> and \<open>DEFAULT_MAX_CANDIDATE_POOL_SIZE\<close>.
\<close>

definition TenXAlignerOptions_ctor ::
  "TenXAlignerOptions \<Rightarrow> int \<Rightarrow> int \<Rightarrow> TenXAlignerOptions" where
  "TenXAlignerOptions_ctor base defaultMaxHits defaultPoolSize =
     base\<lparr>minSpacing := 50, maxSpacing := 1000, maxBarcodeSize := 60000,
          minPairsPerCluster := 10, maxClusterSpan := 100000, forceSpacing := False,
          intersectingAlignerMaxHits := defaultMaxHits,
          maxCandidatePoolSize := defaultPoolSize, quicklyDropUnpairedReads := True\<rparr>"

text \<open>
  \<open>TenXAlignerOptions::parse(argv, argc, n, done)\<close>, with \<open>argc = length argv\<close>. The result is
  the returned flag, the updated \<open>n\<close>, \<open>*done\<close> and the updated options. The caller passes
  \<open>n < argc\<close>. The branches are in the order of the source.
\<close>

definition parse ::
  "Externals \<Rightarrow> string list \<Rightarrow> nat \<Rightarrow> TenXAlignerOptions
     \<Rightarrow> bool \<times> nat \<times> bool \<times> TenXAlignerOptions" where
  "parse ext argv n opts =
     (let argc = length argv in
      if argv ! n = ''-s'' then
        (if n + 2 < argc
         then (True, n + 2, False,
               opts\<lparr>minSpacing := atoi (argv ! (n + 1)), maxSpacing := atoi (argv ! (n + 2))\<rparr>)
         else (False, n, False, opts))
      else if argv ! n = ''-H'' then
        (if n + 1 < argc
         then (True, n + 1, False, opts\<lparr>intersectingAlignerMaxHits := atoi (argv ! (n + 1))\<rparr>)
         else (False, n, False, opts))
      else if argv ! n = ''-fs'' then (True, n, False, opts\<lparr>forceSpacing := True\<rparr>)
      else if argv ! n = ''-ku'' then (True, n, False, opts\<lparr>quicklyDropUnpairedReads := False\<rparr>)
      else if argv ! n = ''-mcp'' then
        (if n + 1 < argc
         then (True, n + 1, False, opts\<lparr>maxCandidatePoolSize := atoi (argv ! (n + 1))\<rparr>)
         else (False, n, False, opts))
      else if argv ! n = ''-F'' \<and> n + 1 < argc \<and> argv ! (n + 1) = ''b'' then
        (True, n + 1, False,
         opts\<lparr>filterFlags := filterFlags opts OR FilterBothMatesMatch ext\<rparr>)
      else if argv ! n = ''-maxBar'' then
        (if n + 1 < argc
         then (True, n + 1, False, opts\<lparr>maxBarcodeSize := atoi (argv ! (n + 1))\<rparr>)
         else (False, n, False, opts))
      else if argv ! n = ''-minCluster'' then
        (if n + 1 < argc
         then (True, n + 1, False, opts\<lparr>minPairsPerCluster := atoi (argv ! (n + 1))\<rparr>)
         else (False, n, False, opts))
      else if argv ! n = ''-maxClusterSpan'' then
        (if n + 1 < argc
         then (True, n + 1, False, opts\<lparr>minPairsPerCluster := atoi (argv ! (n + 1))\<rparr>)
         else (False, n, False, opts))
      else AlignerOptions_parse ext argv n opts)"



section \<open>The forceSpacing policy\<close>

text \<open>
  Lines 726-730, applied to \<open>results[pairIdx][0]\<close> before the filter loop.
\<close>

definition applyForceSpacing ::
  "Externals \<Rightarrow> bool \<Rightarrow> PairedAlignmentResult \<Rightarrow> PairedAlignmentResult" where
  "applyForceSpacing ext fs r =
     (if fs \<and> isOneLocation (status0 r) \<noteq> isOneLocation (status1 r)
      then r\<lparr>status0 := NotFound, status1 := NotFound,
             location0 := InvalidGenomeLocation ext, location1 := InvalidGenomeLocation ext\<rparr>
      else r)"

section \<open>The worker: state, failures, collaborators\<close>

text \<open>
  Ways in which \<open>runIterationThread\<close> stops other than by returning: \<open>soft_exit\<close> with its
  exit code and the message written before it, a failed \<open>_ASSERT\<close> (in a build that checks
  them), an access outside an allocated array, and a signed 64-bit product out of range.
\<close>

datatype failure = SoftExit int string | AssertionFailed | OutOfBounds | SignedOverflow

text \<open>
  The counters of \<open>AlignerStats\<close> that the worker updates. The source's counters, counts
  and capacities are 64-bit integers; the model uses unbounded integers for them, and the
  one operation that can leave the 64-bit range, the doubling of a capacity, checks it.
\<close>

record AlignerStats =
  totalReads :: int
  notFound :: int
  uselessReads :: int
  filtered :: int
  extraAlignments :: int
  singleHits :: int
  multiHits :: int
  alignedAsPairs :: int

text \<open>
  One call of \<open>readWriter->writePairs(context, reads, results, nResults, singleResults,
  nSingleResults, firstIsPrimary)\<close>: the two reads \<open>reads\<close> points at, the result buffer
  handed over and the count that goes with it, the single-end buffer (\<open>None\<close> for the
  \<open>NULL\<close> pointer) and the two single-end counts.
\<close>

record WritePairsCall =
  w_read0 :: Read
  w_read1 :: Read
  w_results :: "PairedAlignmentResult list"
  w_nResults :: int
  w_singleResults :: "SingleAlignmentResult list option"
  w_nSingleResults0 :: int
  w_nSingleResults1 :: int
  w_firstIsPrimary :: bool

text \<open>
  The context. \<open>initialize\<close> copies \<open>forceSpacing\<close>, \<open>maxBarcodeSize\<close> and
  \<open>ignoreMismatchedIDs\<close> from the options, so the model reads them there.
  \<open>readWriterPresent\<close> is \<open>NULL != readWriter\<close>; \<open>debugAsserts\<close> says whether the build
  checks \<open>_ASSERT\<close>.
\<close>

record TenXAlignerContext =
  options :: TenXAlignerOptions
  minReadLength :: nat
  maxDist :: int
  readWriterPresent :: bool
  debugAsserts :: bool

text \<open>
  The local arrays of \<open>runIterationThread\<close>, each a list as long as its allocation.
  \<open>nSecondaryResults_ptr\<close> is where the pointer variable \<open>nSecondaryResults\<close> points,
  counted in elements from the start of its array. The last three fields record which
  resources are still held.
\<close>

record WorkerState =
  reads :: "Read list"
  results :: "PairedAlignmentResult list list"
  singleSecondaryResults :: "SingleAlignmentResult list list"
  nSecondaryResults :: "int list"
  nSecondaryResults_ptr :: int
  nSingleSecondaryResults :: "int list"
  maxPairedSecondaryHits :: "int list"
  maxSingleSecondaryHits :: "int list"
  pairNotFinished :: "bool list"
  useful0 :: "bool list"
  useful1 :: "bool list"
  totalPairsForBarcode :: nat
  stats :: AlignerStats
  written :: "WritePairsCall list"
  allocatorLive :: bool
  buffersLive :: bool
  supplierLive :: bool

text \<open>
  The test the source writes out for each read:
  \<open>read->getDataLength() >= minReadLength && (int)read->countOfNs() <= maxDist\<close>.
\<close>

definition isUseful :: "TenXAlignerContext \<Rightarrow> Read \<Rightarrow> bool" where
  "isUseful ctx r = (minReadLength ctx \<le> getDataLength r \<and> int (countOfNs r) \<le> maxDist ctx)"

text \<open>
  \<open>(options->filterFlags & AlignerOptions::FilterBothMatesMatch) ? (pass0 && pass1)
  : (pass0 || pass1)\<close>, as written at each of the three places that filter a pair.
\<close>

definition bothMatesFlag :: "Externals \<Rightarrow> TenXAlignerOptions \<Rightarrow> bool" where
  "bothMatesFlag ext opts = (filterFlags opts AND FilterBothMatesMatch ext \<noteq> 0)"

definition pairPass :: "Externals \<Rightarrow> TenXAlignerContext \<Rightarrow> bool \<Rightarrow> bool \<Rightarrow> bool" where
  "pairPass ext ctx pass0 pass1 =
     (if bothMatesFlag ext (options ctx) then pass0 \<and> pass1 else pass0 \<or> pass1)"

text \<open>
  The message of lines 411-415: each identifier cut to at most 200 characters, between
  single quotes.
\<close>

definition unmatchedMessage :: "Read \<Rightarrow> Read \<Rightarrow> string" where
  "unmatchedMessage r0 r1 =
     ''Unmatched read IDs '' @ [CHR 0x27] @ take 200 (getId r0) @ [CHR 0x27] @ '' and ''
       @ [CHR 0x27] @ take 200 (getId r1) @ [CHR 0x27]
       @ ''.  Use the -I option to ignore this.'' @ [CHR 0x0A]"

text \<open>
  Modelled from the spec: \<open>Read::checkIdMatch\<close> is defined outside the source file. It is
  taken to do what the no-index path spells out at lines 410-417: when the identifiers
  of the two reads it is given do not match, write the message and exit with code 1.
\<close>

definition checkIdMatch :: "Externals \<Rightarrow> Read \<Rightarrow> Read \<Rightarrow> failure option" where
  "checkIdMatch ext r0 r1 =
     (if readIdsMatch ext r0 r1 then None else Some (SoftExit 1 (unmatchedMessage r0 r1)))"

definition addTotalReads :: "int \<Rightarrow> AlignerStats \<Rightarrow> AlignerStats" where
  "addTotalReads k s = s\<lparr>totalReads := totalReads s + k\<rparr>"

definition addNotFound :: "int \<Rightarrow> AlignerStats \<Rightarrow> AlignerStats" where
  "addNotFound k s = s\<lparr>notFound := notFound s + k\<rparr>"

definition addUselessReads :: "int \<Rightarrow> AlignerStats \<Rightarrow> AlignerStats" where
  "addUselessReads k s = s\<lparr>uselessReads := uselessReads s + k\<rparr>"

definition addFiltered :: "int \<Rightarrow> AlignerStats \<Rightarrow> AlignerStats" where
  "addFiltered k s = s\<lparr>filtered := filtered s + k\<rparr>"

text \<open>
  \<open>if (NULL != readWriter) readWriter->writePairs(readerContext, reads, &result, 1, NULL,
  nSingleResults, true)\<close>, with \<open>nSingleResults = {0, 0}\<close>: the call both unmapped paths make.
\<close>

definition writeUnmapped ::
  "TenXAlignerContext \<Rightarrow> Read \<Rightarrow> Read \<Rightarrow> PairedAlignmentResult \<Rightarrow> WorkerState \<Rightarrow> WorkerState" where
  "writeUnmapped ctx r0 r1 result st =
     (if readWriterPresent ctx
      then st\<lparr>written := written st @
             [\<lparr>w_read0 = r0, w_read1 = r1, w_results = [result], w_nResults = 1,
               w_singleResults = None, w_nSingleResults0 = 0, w_nSingleResults1 = 0,
               w_firstIsPrimary = True\<rparr>]\<rparr>
      else st)"

section \<open>The path without an index (lines 398-437)\<close>

text \<open>\<open>memset(&result, 0, sizeof(result))\<close> followed by the two location assignments.\<close>

definition noIndexResult :: "Externals \<Rightarrow> PairedAlignmentResult" where
  "noIndexResult ext =
     \<lparr>status0 = zeroAlignmentResult, status1 = zeroAlignmentResult,
      location0 = InvalidGenomeLocation ext, location1 = InvalidGenomeLocation ext,
      direction0 = 0, direction1 = 0, score0 = 0, score1 = 0, mapq0 = 0, mapq1 = 0,
      clippingForReadAdjustment0 = 0, clippingForReadAdjustment1 = 0,
      fromAlignTogether = False, alignedAsPair = False\<rparr>"

text \<open>The filter decision of lines 420-423 for one pair.\<close>

definition noIndexPass :: "Externals \<Rightarrow> TenXAlignerContext \<Rightarrow> Read \<Rightarrow> Read \<Rightarrow> bool" where
  "noIndexPass ext ctx r0 r1 =
     pairPass ext ctx
       (passFilter ext r0 (status0 (noIndexResult ext)) (isUseful ctx r0) False)
       (passFilter ext r1 (status1 (noIndexResult ext)) (isUseful ctx r1) False)"

text \<open>One turn of the \<open>while\<close> loop of line 408, for the pair the supplier delivered.\<close>

definition noIndexStep ::
  "Externals \<Rightarrow> TenXAlignerContext \<Rightarrow> Read \<times> Read \<Rightarrow> WorkerState \<Rightarrow> failure + WorkerState" where
  "noIndexStep ext ctx pair st =
     (let r0 = fst pair; r1 = snd pair in
      if \<not> ignoreMismatchedIDs (options ctx) \<and> \<not> readIdsMatch ext r0 r1
      then Inl (SoftExit 1 (unmatchedMessage r0 r1))
      else
        let st1 = st\<lparr>stats := addTotalReads 2 (stats st)\<rparr> in
        if noIndexPass ext ctx r0 r1
        then Inr (writeUnmapped ctx r0 r1 (noIndexResult ext)
                    (st1\<lparr>stats := addNotFound 1 (stats st1)\<rparr>))
        else Inr (st1\<lparr>stats := addUselessReads 1 (stats st1)\<rparr>))"

text \<open>
  The loop: the supplier is the list of pairs it will deliver; \<open>getNextReadPair\<close> returns
  false when the list is used up.
\<close>

fun noIndexLoop ::
  "Externals \<Rightarrow> TenXAlignerContext \<Rightarrow> (Read \<times> Read) list \<Rightarrow> WorkerState \<Rightarrow> failure + WorkerState" where
  "noIndexLoop ext ctx [] st = Inr st"
| "noIndexLoop ext ctx (pair # rest) st =
     (case noIndexStep ext ctx pair st of
        Inl e \<Rightarrow> Inl e
      | Inr st' \<Rightarrow> noIndexLoop ext ctx rest st')"

definition noIndexPath ::
  "Externals \<Rightarrow> TenXAlignerContext \<Rightarrow> (Read \<times> Read) list \<Rightarrow> WorkerState \<Rightarrow> failure + WorkerState" where
  "noIndexPath ext ctx supplier st =
     (case noIndexLoop ext ctx supplier st of
        Inl e \<Rightarrow> Inl e
      | Inr st' \<Rightarrow> Inr (st'\<lparr>supplierLive := False\<rparr>))"

section \<open>Buffering the reads of a barcode (lines 609-652)\<close>

text \<open>
  The result of the branch for a pair with no useful read: a local variable that is not
  initialised (\<open>garbage\<close> is what the stack held), with statuses, locations and clipping
  assigned.
\<close>

definition uselessPairResult :: "Externals \<Rightarrow> PairedAlignmentResult \<Rightarrow> PairedAlignmentResult" where
  "uselessPairResult ext garbage =
     garbage\<lparr>status0 := NotFound, status1 := NotFound,
             location0 := InvalidGenomeLocation ext, location1 := InvalidGenomeLocation ext,
             clippingForReadAdjustment0 := 0, clippingForReadAdjustment1 := 0\<rparr>"

text \<open>The filter decision of lines 633-636.\<close>

definition uselessPairPass :: "Externals \<Rightarrow> TenXAlignerContext \<Rightarrow> Read \<Rightarrow> Read \<Rightarrow> bool" where
  "uselessPairPass ext ctx r0 r1 =
     pairPass ext ctx (passFilter ext r0 NotFound True False)
                      (passFilter ext r1 NotFound True False)"

text \<open>
  One turn of the loop of line 612. \<open>getNextReadPair\<close> stores the pair at
  \<open>reads[2 * totalPairsForBarcode]\<close> and the slot after it; the body then works on
  \<open>reads[0]\<close> and \<open>reads[1]\<close>, as the source has it.
\<close>

definition bufferStep ::
  "Externals \<Rightarrow> TenXAlignerContext \<Rightarrow> PairedAlignmentResult \<Rightarrow> Read \<times> Read \<Rightarrow> WorkerState
     \<Rightarrow> failure + WorkerState" where
  "bufferStep ext ctx garbage pair st =
     (let t = totalPairsForBarcode st in
      if \<not> 2 * t + 1 < length (reads st) then Inl OutOfBounds
      else
        let rs = (reads st)[2 * t := fst pair, 2 * t + 1 := snd pair];
            r0 = rs ! 0;
            r1 = rs ! 1
        in
        case (if \<not> ignoreMismatchedIDs (options ctx) then checkIdMatch ext r0 r1 else None) of
          Some e \<Rightarrow> Inl e
        | None \<Rightarrow>
            if \<not> (t < length (useful0 st) \<and> t < length (useful1 st)) then Inl OutOfBounds
            else
              let st1 = st\<lparr>reads := rs, stats := addTotalReads 2 (stats st),
                            useful0 := (useful0 st)[t := isUseful ctx r0],
                            useful1 := (useful1 st)[t := isUseful ctx r1]\<rparr>
              in
              if \<not> isUseful ctx r0 \<and> \<not> isUseful ctx r1 then
                (if uselessPairPass ext ctx r0 r1
                 then Inr (writeUnmapped ctx r0 r1 (uselessPairResult ext garbage)
                             (st1\<lparr>stats := addUselessReads 2 (stats st1)\<rparr>))
                 else Inr (st1\<lparr>stats := addFiltered 2 (stats st1)\<rparr>))
              else
                if debugAsserts ctx
                     \<and> \<not> int (t + 1) \<le> maxBarcodeSize (options ctx)
                then Inl AssertionFailed
                else Inr (st1\<lparr>totalPairsForBarcode := t + 1\<rparr>))"

fun bufferLoop ::
  "Externals \<Rightarrow> TenXAlignerContext \<Rightarrow> PairedAlignmentResult \<Rightarrow> (Read \<times> Read) list \<Rightarrow> WorkerState
     \<Rightarrow> failure + WorkerState" where
  "bufferLoop ext ctx garbage [] st = Inr st"
| "bufferLoop ext ctx garbage (pair # rest) st =
     (case bufferStep ext ctx garbage pair st of
        Inl e \<Rightarrow> Inl e
      | Inr st' \<Rightarrow> bufferLoop ext ctx garbage rest st')"

section \<open>The three stages and their retry loops (lines 664-701)\<close>

text \<open>
  \<open>TenXClusterAligner\<close> is defined outside the source file. Each stage reads and writes
  the worker's arrays and returns \<open>barcodeFinished\<close>; the model takes the three stages as
  functions on the worker's state.
\<close>

record TenXClusterAligner =
  align_first_stage :: "WorkerState \<Rightarrow> bool \<times> WorkerState"
  align_second_stage :: "WorkerState \<Rightarrow> bool \<times> WorkerState"
  align_third_stage :: "WorkerState \<Rightarrow> bool \<times> WorkerState"

text \<open>
  \<open>nSecondaryResults[pairIdx]\<close>, read through the pointer variable: outside the array
  the read is a failure of the model.
\<close>

definition nSecondaryResultsAt :: "WorkerState \<Rightarrow> nat \<Rightarrow> failure + int" where
  "nSecondaryResultsAt st pairIdx =
     (if 0 \<le> nSecondaryResults_ptr st + int pairIdx
         \<and> nSecondaryResults_ptr st + int pairIdx < int (length (nSecondaryResults st))
      then Inr (nSecondaryResults st ! nat (nSecondaryResults_ptr st + int pairIdx))
      else Inl OutOfBounds)"

definition inInt64 :: "int \<Rightarrow> bool" where
  "inInt64 v = (- (2 ^ 63) \<le> v \<and> v < 2 ^ 63)"

text \<open>
  \<open>_ASSERT(nSecondaryResults[pairIdx] > maxPairedSecondaryHits[pairIdx])\<close> and
  \<open>_ASSERT(nSingleSecondaryResults[pairIdx * NUM_READS_PER_PAIR] > maxSingleSecondaryHits[pairIdx])\<close>:
  nothing in a build that does not check assertions.
\<close>

definition pairedAssert :: "TenXAlignerContext \<Rightarrow> WorkerState \<Rightarrow> nat \<Rightarrow> failure option" where
  "pairedAssert ctx st pairIdx =
     (if \<not> debugAsserts ctx then None
      else
        case nSecondaryResultsAt st pairIdx of
          Inl e \<Rightarrow> Some e
        | Inr c \<Rightarrow>
            if maxPairedSecondaryHits st ! pairIdx < c then None else Some AssertionFailed)"

definition singleAssert :: "TenXAlignerContext \<Rightarrow> WorkerState \<Rightarrow> nat \<Rightarrow> failure option" where
  "singleAssert ctx st pairIdx =
     (if \<not> debugAsserts ctx then None
      else if \<not> 2 * pairIdx < length (nSingleSecondaryResults st) then Some OutOfBounds
      else if maxSingleSecondaryHits st ! pairIdx < nSingleSecondaryResults st ! (2 * pairIdx)
        then None
      else Some AssertionFailed)"

text \<open>
  The body of the \<open>for\<close> loop of lines 675-683 for one \<open>pairIdx\<close>. \<open>BigAlloc\<close> returns memory
  that is not initialised: the new buffer holds \<open>maxPairedSecondaryHits[pairIdx] + 1\<close>
  records, each with the content \<open>fresh\<close>. The capacities start at 0 or 32 and are never
  negative.
\<close>

definition growPairedAt ::
  "TenXAlignerContext \<Rightarrow> PairedAlignmentResult \<Rightarrow> nat \<Rightarrow> WorkerState \<Rightarrow> failure + WorkerState" where
  "growPairedAt ctx fresh pairIdx st =
     (if \<not> pairIdx < length (pairNotFinished st) then Inl OutOfBounds
      else if \<not> pairNotFinished st ! pairIdx then Inr st
      else if \<not> (pairIdx < length (maxPairedSecondaryHits st) \<and> pairIdx < length (results st))
        then Inl OutOfBounds
      else
        case pairedAssert ctx st pairIdx of
          Some e \<Rightarrow> Inl e
        | None \<Rightarrow>
            if \<not> inInt64 (maxPairedSecondaryHits st ! pairIdx * 2) then Inl SignedOverflow
            else Inr (st\<lparr>maxPairedSecondaryHits :=
                           (maxPairedSecondaryHits st)
                             [pairIdx := maxPairedSecondaryHits st ! pairIdx * 2],
                         results :=
                           (results st)[pairIdx :=
                              replicate (nat (maxPairedSecondaryHits st ! pairIdx * 2 + 1))
                                fresh]\<rparr>))"

fun growPaired ::
  "TenXAlignerContext \<Rightarrow> PairedAlignmentResult \<Rightarrow> nat list \<Rightarrow> WorkerState \<Rightarrow> failure + WorkerState" where
  "growPaired ctx fresh [] st = Inr st"
| "growPaired ctx fresh (pairIdx # rest) st =
     (case growPairedAt ctx fresh pairIdx st of
        Inl e \<Rightarrow> Inl e
      | Inr st' \<Rightarrow> growPaired ctx fresh rest st')"

text \<open>The body of the \<open>for\<close> loop of lines 692-700 for one \<open>pairIdx\<close>.\<close>

definition growSingleAt ::
  "TenXAlignerContext \<Rightarrow> SingleAlignmentResult \<Rightarrow> nat \<Rightarrow> WorkerState \<Rightarrow> failure + WorkerState" where
  "growSingleAt ctx fresh pairIdx st =
     (if \<not> pairIdx < length (pairNotFinished st) then Inl OutOfBounds
      else if \<not> pairNotFinished st ! pairIdx then Inr st
      else if \<not> (pairIdx < length (maxSingleSecondaryHits st)
                  \<and> pairIdx < length (singleSecondaryResults st))
        then Inl OutOfBounds
      else
        case singleAssert ctx st pairIdx of
          Some e \<Rightarrow> Inl e
        | None \<Rightarrow>
            if \<not> inInt64 (maxSingleSecondaryHits st ! pairIdx * 2) then Inl SignedOverflow
            else Inr (st\<lparr>maxSingleSecondaryHits :=
                           (maxSingleSecondaryHits st)
                             [pairIdx := maxSingleSecondaryHits st ! pairIdx * 2],
                         singleSecondaryResults :=
                           (singleSecondaryResults st)[pairIdx :=
                              replicate (nat (maxSingleSecondaryHits st ! pairIdx * 2)) fresh]\<rparr>))"

fun growSingle ::
  "TenXAlignerContext \<Rightarrow> SingleAlignmentResult \<Rightarrow> nat list \<Rightarrow> WorkerState \<Rightarrow> failure + WorkerState" where
  "growSingle ctx fresh [] st = Inr st"
| "growSingle ctx fresh (pairIdx # rest) st =
     (case growSingleAt ctx fresh pairIdx st of
        Inl e \<Rightarrow> Inl e
      | Inr st' \<Rightarrow> growSingle ctx fresh rest st')"

text \<open>
  The \<open>while (true)\<close> loops of lines 670-684 and 688-701. Whether they end depends on the
  stage functions, so the result is an option: \<open>None\<close> is the loop that never leaves.
\<close>

partial_function (option) secondStageLoop ::
  "TenXClusterAligner \<Rightarrow> TenXAlignerContext \<Rightarrow> PairedAlignmentResult \<Rightarrow> WorkerState
     \<Rightarrow> (failure + WorkerState) option" where
  "secondStageLoop aligner ctx fresh st =
     (case align_second_stage aligner st of
        (barcodeFinished, st1) \<Rightarrow>
          if barcodeFinished then Some (Inr st1)
          else (case growPaired ctx fresh [0 ..< totalPairsForBarcode st1] st1 of
                  Inl e \<Rightarrow> Some (Inl e)
                | Inr st2 \<Rightarrow> secondStageLoop aligner ctx fresh st2))"

partial_function (option) thirdStageLoop ::
  "TenXClusterAligner \<Rightarrow> TenXAlignerContext \<Rightarrow> SingleAlignmentResult \<Rightarrow> WorkerState
     \<Rightarrow> (failure + WorkerState) option" where
  "thirdStageLoop aligner ctx fresh st =
     (case align_third_stage aligner st of
        (barcodeFinished, st1) \<Rightarrow>
          if barcodeFinished then Some (Inr st1)
          else (case growSingle ctx fresh [0 ..< totalPairsForBarcode st1] st1 of
                  Inl e \<Rightarrow> Some (Inl e)
                | Inr st2 \<Rightarrow> thirdStageLoop aligner ctx fresh st2))"

section \<open>Emitting the results of a barcode (lines 716-785)\<close>

text \<open>The filter decision of lines 734-737 for the record \<open>results[pairIdx][i]\<close>.\<close>

definition emitPass ::
  "Externals \<Rightarrow> TenXAlignerContext \<Rightarrow> Read \<Rightarrow> Read \<Rightarrow> bool \<Rightarrow> bool
     \<Rightarrow> PairedAlignmentResult \<Rightarrow> bool \<Rightarrow> bool" where
  "emitPass ext ctx r0 r1 u0 u1 result secondaryAlignment =
     pairPass ext ctx (passFilter ext r0 (status0 result) (\<not> u0) secondaryAlignment)
                      (passFilter ext r1 (status1 result) (\<not> u1) secondaryAlignment)"

text \<open>
  The loop of lines 732-750 over the buffer \<open>buf = results[pairIdx]\<close>, from index \<open>i\<close>.
  \<open>arr\<close> is the array of counts and \<open>ptr\<close> the position of the pointer variable
  \<open>nSecondaryResults\<close>, so that \<open>nSecondaryResults[pairIdx]\<close> is
  \<open>arr[ptr + pairIdx]\<close>. On a record that fails the filter the source copies
  \<open>results[pairIdx][nSecondaryResults[pairIdx]]\<close> over it, executes
  \<open>nSecondaryResults--\<close>, and repeats index \<open>i\<close> (\<open>i--\<close>, then the loop's \<open>i++\<close>). The result
  is the buffer, the pointer and \<open>firstIsPrimary\<close>.
\<close>

function filterPaired ::
  "(PairedAlignmentResult \<Rightarrow> bool \<Rightarrow> bool) \<Rightarrow> int list \<Rightarrow> nat \<Rightarrow> int
     \<Rightarrow> PairedAlignmentResult list \<Rightarrow> nat \<Rightarrow> bool
     \<Rightarrow> failure + (PairedAlignmentResult list \<times> int \<times> bool)" where
  "filterPaired keep arr pairIdx ptr buf i firstIsPrimary =
     (if \<not> (0 \<le> ptr + int pairIdx \<and> ptr + int pairIdx < int (length arr)) then Inl OutOfBounds
      else if \<not> int i \<le> arr ! nat (ptr + int pairIdx) then Inr (buf, ptr, firstIsPrimary)
      else if \<not> i < length buf then Inl OutOfBounds
      else if keep (buf ! i) (i \<noteq> 0 \<or> \<not> firstIsPrimary)
        then filterPaired keep arr pairIdx ptr buf (i + 1) firstIsPrimary
      else if \<not> nat (arr ! nat (ptr + int pairIdx)) < length buf then Inl OutOfBounds
      else filterPaired keep arr pairIdx (ptr - 1)
             (buf[i := buf ! nat (arr ! nat (ptr + int pairIdx))]) i
             (if i = 0 then False else firstIsPrimary))"
  by pat_completeness auto
termination
  by (relation "measures [\<lambda>(keep, arr, pairIdx, ptr, buf, i, fip). nat (ptr + int pairIdx + 1),
                          \<lambda>(keep, arr, pairIdx, ptr, buf, i, fip). length buf - i]") auto

declare filterPaired.simps [simp del]

text \<open>
  The loop of lines 758-764 for one read: \<open>base\<close> is where \<open>singleResults[whichRead]\<close>
  starts in the pair's buffer, \<open>n\<close> is \<open>nSingleSecondaryResults[globalIdx]\<close>.
\<close>

function filterSingle ::
  "(AlignmentResult \<Rightarrow> bool) \<Rightarrow> nat \<Rightarrow> SingleAlignmentResult list \<Rightarrow> int \<Rightarrow> nat
     \<Rightarrow> failure + (SingleAlignmentResult list \<times> int)" where
  "filterSingle keep base buf n whichAlignment =
     (if \<not> int whichAlignment < n then Inr (buf, n)
      else if \<not> base + whichAlignment < length buf then Inl OutOfBounds
      else if keep (status (buf ! (base + whichAlignment)))
        then filterSingle keep base buf n (whichAlignment + 1)
      else if \<not> base + nat (n - 1) < length buf then Inl OutOfBounds
      else filterSingle keep base
             (buf[base + whichAlignment := buf ! (base + nat (n - 1))]) (n - 1) whichAlignment)"
  by pat_completeness auto
termination
  by (relation "measure (\<lambda>(keep, base, buf, n, w). nat (n - int w))") auto

declare filterSingle.simps [simp del]

text \<open>
  \<open>updateStats\<close>, for the counters of \<open>AlignerStats\<close> that the model keeps; the histograms
  and \<open>sameComplement\<close> are left out.
\<close>

definition countRead :: "bool \<Rightarrow> AlignmentResult \<Rightarrow> AlignerStats \<Rightarrow> AlignerStats" where
  "countRead useful s a =
     (if useful then
        (if isOneLocation s then a\<lparr>singleHits := singleHits a + 1\<rparr>
         else if s = MultipleHits then a\<lparr>multiHits := multiHits a + 1\<rparr>
         else a\<lparr>notFound := notFound a + 1\<rparr>)
      else a\<lparr>uselessReads := uselessReads a + 1\<rparr>)"

definition updateStats ::
  "PairedAlignmentResult \<Rightarrow> bool \<Rightarrow> bool \<Rightarrow> AlignerStats \<Rightarrow> AlignerStats" where
  "updateStats result u0 u1 a =
     (let a1 = countRead u1 (status1 result) (countRead u0 (status0 result) a)
      in if alignedAsPair result then a1\<lparr>alignedAsPairs := alignedAsPairs a1 + 2\<rparr> else a1)"

text \<open>
  The body of the loop of line 716 for one \<open>pairIdx\<close>: the forceSpacing policy, the filter
  over the paired results, the filter over the single-end results of each read, the call
  of the writer with \<open>nSecondaryResults[pairIdx] + 1\<close>, and the statistics.
\<close>

definition emitPair ::
  "Externals \<Rightarrow> TenXAlignerContext \<Rightarrow> nat \<Rightarrow> WorkerState \<Rightarrow> failure + WorkerState" where
  "emitPair ext ctx pairIdx st =
     (if \<not> (2 * pairIdx + 1 < length (reads st) \<and> pairIdx < length (results st)
             \<and> pairIdx < length (useful0 st) \<and> pairIdx < length (useful1 st)
             \<and> pairIdx < length (singleSecondaryResults st)
             \<and> 2 * pairIdx + 1 < length (nSingleSecondaryResults st))
      then Inl OutOfBounds
      else if results st ! pairIdx = [] then Inl OutOfBounds
      else
        let r0 = reads st ! (2 * pairIdx);
            r1 = reads st ! (2 * pairIdx + 1);
            u0 = useful0 st ! pairIdx;
            u1 = useful1 st ! pairIdx;
            buf = (results st ! pairIdx)
                    [0 := applyForceSpacing ext (forceSpacing (options ctx))
                            (results st ! pairIdx ! 0)];
            n0 = nSingleSecondaryResults st ! (2 * pairIdx);
            n1 = nSingleSecondaryResults st ! (2 * pairIdx + 1)
        in
        case filterPaired (emitPass ext ctx r0 r1 u0 u1) (nSecondaryResults st) pairIdx
               (nSecondaryResults_ptr st) buf 0 True of
          Inl e \<Rightarrow> Inl e
        | Inr (buf', ptr', firstIsPrimary) \<Rightarrow>
           (case filterSingle (\<lambda>s. passFilter ext r0 s False True) 0
                   (singleSecondaryResults st ! pairIdx) n0 0 of
              Inl e \<Rightarrow> Inl e
            | Inr (sbuf0, n0') \<Rightarrow>
               (case filterSingle (\<lambda>s. passFilter ext r1 s False True) (nat n0) sbuf0 n1 0 of
                  Inl e \<Rightarrow> Inl e
                | Inr (sbuf1, n1') \<Rightarrow>
                   (let st1 = st\<lparr>results := (results st)[pairIdx := buf'],
                                 nSecondaryResults_ptr := ptr',
                                 singleSecondaryResults :=
                                   (singleSecondaryResults st)[pairIdx := sbuf1],
                                 nSingleSecondaryResults :=
                                   (nSingleSecondaryResults st)
                                     [2 * pairIdx := n0', 2 * pairIdx + 1 := n1']\<rparr>
                    in
                    case nSecondaryResultsAt st1 pairIdx of
                      Inl e \<Rightarrow> Inl e
                    | Inr cnt \<Rightarrow>
                       (let st2 =
                              (if readWriterPresent ctx
                               then st1\<lparr>written := written st1 @
                                      [\<lparr>w_read0 = r0, w_read1 = r1, w_results = buf',
                                        w_nResults = cnt + 1, w_singleResults = Some sbuf1,
                                        w_nSingleResults0 = n0', w_nSingleResults1 = n1',
                                        w_firstIsPrimary = firstIsPrimary\<rparr>]\<rparr>
                               else st1);
                            a = (stats st2)\<lparr>extraAlignments :=
                                   extraAlignments (stats st2) + cnt
                                     + (if firstIsPrimary then 0 else 1)\<rparr>
                        in
                        Inr (st2\<lparr>stats :=
                               (if firstIsPrimary then updateStats (buf' ! 0) u0 u1 a
                                else addFiltered 2 a)\<rparr>))))))"

fun emitLoop ::
  "Externals \<Rightarrow> TenXAlignerContext \<Rightarrow> nat list \<Rightarrow> WorkerState \<Rightarrow> failure + WorkerState" where
  "emitLoop ext ctx [] st = Inr st"
| "emitLoop ext ctx (pairIdx # rest) st =
     (case emitPair ext ctx pairIdx st of
        Inl e \<Rightarrow> Inl e
      | Inr st' \<Rightarrow> emitLoop ext ctx rest st')"

section \<open>Aligning one barcode (lines 664-830)\<close>

text \<open>
  Lines 795-829: the arrays, the per-pair buffers, the aligners, the supplier and the
  allocator are released.
\<close>

definition cleanup :: "WorkerState \<Rightarrow> WorkerState" where
  "cleanup st = st\<lparr>allocatorLive := False, buffersLive := False, supplierLive := False\<rparr>"

text \<open>
  From the call of \<open>align_first_stage\<close> to the end of \<open>runIterationThread\<close>. When the first
  stage returns true the function returns at line 667, with the state as the first stage
  left it. The timing code, \<open>stats->lvCalls\<close> and \<open>allocator->checkCanaries()\<close> act on
  nothing the model keeps and are left out.
\<close>

definition alignBarcode ::
  "TenXClusterAligner \<Rightarrow> Externals \<Rightarrow> TenXAlignerContext \<Rightarrow> PairedAlignmentResult
     \<Rightarrow> SingleAlignmentResult \<Rightarrow> WorkerState \<Rightarrow> (failure + WorkerState) option" where
  "alignBarcode aligner ext ctx fresh freshSingle st =
     (case align_first_stage aligner st of
        (barcodeFinished, st1) \<Rightarrow>
          if barcodeFinished then Some (Inr st1)
          else
            (case secondStageLoop aligner ctx fresh st1 of
               None \<Rightarrow> None
             | Some (Inl e) \<Rightarrow> Some (Inl e)
             | Some (Inr st2) \<Rightarrow>
                (case thirdStageLoop aligner ctx freshSingle st2 of
                   None \<Rightarrow> None
                 | Some (Inl e) \<Rightarrow> Some (Inl e)
                 | Some (Inr st3) \<Rightarrow>
                    (case emitLoop ext ctx [0 ..< totalPairsForBarcode st3] st3 of
                       Inl e \<Rightarrow> Some (Inl e)
                     | Inr st4 \<Rightarrow> Some (Inr (cleanup st4))))))"

section \<open>Concrete inputs\<close>

text \<open>
  Inputs on which the model is evaluated below. Read identifiers match when they agree
  up to the first slash (\<open>foo/1\<close> and \<open>foo/2\<close>). The batch has the worker's arrays for
  \<open>maxBarcodeSize = 2\<close> and, per pair, buffers of the 33 paired and 32 single-end records
  that the initial capacity of 32 announces. (The allocation of lines 534-535 multiplies
  by the size of a pointer and is smaller than that; the evaluations below touch the
  first two records of a buffer only.)
\<close>

definition stemOf :: "Read \<Rightarrow> string" where
  "stemOf r = takeWhile (\<lambda>c. c \<noteq> CHR ''/'') (getId r)"

definition externalsWith ::
  "(Read \<Rightarrow> AlignmentResult \<Rightarrow> bool \<Rightarrow> bool \<Rightarrow> bool) \<Rightarrow> Externals" where
  "externalsWith f =
     \<lparr>passFilter = f, readIdsMatch = (\<lambda>a b. stemOf a = stemOf b),
      FilterBothMatesMatch = 8, InvalidGenomeLocation = - 1,
      AlignerOptions_parse = (\<lambda>argv n opts. (False, n, False, opts))\<rparr>"

definition onlySingleHit :: "Read \<Rightarrow> AlignmentResult \<Rightarrow> bool \<Rightarrow> bool \<Rightarrow> bool" where
  "onlySingleHit r s tooShort secondaryAlignment = (s = SingleHit)"

definition everyRead :: "Read \<Rightarrow> AlignmentResult \<Rightarrow> bool \<Rightarrow> bool \<Rightarrow> bool" where
  "everyRead r s tooShort secondaryAlignment = True"

definition exampleOptions :: TenXAlignerOptions where
  "exampleOptions =
     \<lparr>minSpacing = 50, maxSpacing = 1000, maxBarcodeSize = 2, minPairsPerCluster = 10,
      maxClusterSpan = 100000, forceSpacing = False, intersectingAlignerMaxHits = 2000,
      maxCandidatePoolSize = 1000000, quicklyDropUnpairedReads = True, filterFlags = 0,
      ignoreMismatchedIDs = False\<rparr>"

definition exampleContext :: TenXAlignerContext where
  "exampleContext =
     \<lparr>options = exampleOptions, minReadLength = 50, maxDist = 14, readWriterPresent = True,
      debugAsserts = True\<rparr>"

definition mkRead :: "string \<Rightarrow> nat \<Rightarrow> Read" where
  "mkRead name len = \<lparr>getId = name, getDataLength = len, countOfNs = 0\<rparr>"

definition mkResult ::
  "AlignmentResult \<Rightarrow> AlignmentResult \<Rightarrow> GenomeLocation \<Rightarrow> PairedAlignmentResult" where
  "mkResult s0 s1 loc =
     \<lparr>status0 = s0, status1 = s1, location0 = loc, location1 = loc + 300,
      direction0 = 0, direction1 = 1, score0 = 0, score1 = 0, mapq0 = 70, mapq1 = 70,
      clippingForReadAdjustment0 = 0, clippingForReadAdjustment1 = 0,
      fromAlignTogether = True, alignedAsPair = True\<rparr>"

definition mkSingle :: "AlignmentResult \<Rightarrow> SingleAlignmentResult" where
  "mkSingle s = \<lparr>status = s, location = 0, score = 0, mapq = 0\<rparr>"

definition zeroStats :: AlignerStats where
  "zeroStats =
     \<lparr>totalReads = 0, notFound = 0, uselessReads = 0, filtered = 0, extraAlignments = 0,
      singleHits = 0, multiHits = 0, alignedAsPairs = 0\<rparr>"

definition emptyBatch :: WorkerState where
  "emptyBatch =
     \<lparr>reads = replicate 4 (mkRead [] 0),
      results = replicate 2 (replicate 33 (mkResult NotFound NotFound 0)),
      singleSecondaryResults = replicate 2 (replicate 32 (mkSingle NotFound)),
      nSecondaryResults = [0, 0], nSecondaryResults_ptr = 0,
      nSingleSecondaryResults = [0, 0, 0, 0],
      maxPairedSecondaryHits = [32, 32], maxSingleSecondaryHits = [32, 32],
      pairNotFinished = [True, True], useful0 = [False, False], useful1 = [False, False],
      totalPairsForBarcode = 0, stats = zeroStats, written = [],
      allocatorLive = True, buffersLive = True, supplierLive = True\<rparr>"

text \<open>
  A batch of two pairs after the third stage, each with a primary and one secondary
  result in a buffer of 33 records. The second pair's primary has status MultipleHits on
  both mates and its secondary SingleHit; the first pair's primary is a parameter.
\<close>

definition scoredBatch :: "PairedAlignmentResult \<Rightarrow> WorkerState" where
  "scoredBatch primary0 =
     emptyBatch
       \<lparr>reads := [mkRead ''foo/1'' 100, mkRead ''foo/2'' 100,
                  mkRead ''bar/1'' 100, mkRead ''bar/2'' 100],
        results :=
          [primary0 # mkResult SingleHit SingleHit 2000
             # replicate 31 (mkResult NotFound NotFound 0),
           mkResult MultipleHits MultipleHits 5000 # mkResult SingleHit SingleHit 7000
             # replicate 31 (mkResult NotFound NotFound 0)],
        nSecondaryResults := [1, 1],
        pairNotFinished := [False, False], useful0 := [True, True], useful1 := [True, True],
        totalPairsForBarcode := 2\<rparr>"

text \<open>
  The shape the claims give for a pair written as unmapped without alignment: one
  paired result, both statuses NotFound, both locations invalid, no single-end results,
  the first result primary.
\<close>

definition isUnmappedWrite :: "Externals \<Rightarrow> WritePairsCall \<Rightarrow> bool" where
  "isUnmappedWrite ext w =
     (w_nResults w = 1 \<and> length (w_results w) = 1
      \<and> status0 (w_results w ! 0) = NotFound \<and> status1 (w_results w ! 0) = NotFound
      \<and> location0 (w_results w ! 0) = InvalidGenomeLocation ext
      \<and> location1 (w_results w ! 0) = InvalidGenomeLocation ext
      \<and> w_singleResults w = None \<and> w_nSingleResults0 w = 0 \<and> w_nSingleResults1 w = 0
      \<and> w_firstIsPrimary w)"

text \<open>
  What one pass of the loop of lines 675-683 over the indices \<open>idxs\<close> does, as the claim
  puts it: the flagged pairs among them get twice the capacity and a new buffer of that
  capacity plus one, everything else stays. The same for the loop of lines 692-700,
  where the new buffer has the new capacity.
\<close>

definition pairedGrown :: "PairedAlignmentResult \<Rightarrow> nat set \<Rightarrow> WorkerState \<Rightarrow> WorkerState \<Rightarrow> bool" where
  "pairedGrown fresh idxs st st' =
     (pairNotFinished st' = pairNotFinished st
      \<and> totalPairsForBarcode st' = totalPairsForBarcode st
      \<and> maxSingleSecondaryHits st' = maxSingleSecondaryHits st
      \<and> singleSecondaryResults st' = singleSecondaryResults st
      \<and> nSecondaryResults st' = nSecondaryResults st
      \<and> length (maxPairedSecondaryHits st') = length (maxPairedSecondaryHits st)
      \<and> length (results st') = length (results st)
      \<and> (\<forall>i. maxPairedSecondaryHits st' ! i =
               (if i \<in> idxs \<and> pairNotFinished st ! i
                then maxPairedSecondaryHits st ! i * 2 else maxPairedSecondaryHits st ! i))
      \<and> (\<forall>i. results st' ! i =
               (if i \<in> idxs \<and> pairNotFinished st ! i
                then replicate (nat (maxPairedSecondaryHits st ! i * 2 + 1)) fresh
                else results st ! i)))"

definition singleGrown :: "SingleAlignmentResult \<Rightarrow> nat set \<Rightarrow> WorkerState \<Rightarrow> WorkerState \<Rightarrow> bool" where
  "singleGrown fresh idxs st st' =
     (pairNotFinished st' = pairNotFinished st
      \<and> totalPairsForBarcode st' = totalPairsForBarcode st
      \<and> maxPairedSecondaryHits st' = maxPairedSecondaryHits st
      \<and> results st' = results st
      \<and> nSingleSecondaryResults st' = nSingleSecondaryResults st
      \<and> length (maxSingleSecondaryHits st') = length (maxSingleSecondaryHits st)
      \<and> length (singleSecondaryResults st') = length (singleSecondaryResults st)
      \<and> (\<forall>i. maxSingleSecondaryHits st' ! i =
               (if i \<in> idxs \<and> pairNotFinished st ! i
                then maxSingleSecondaryHits st ! i * 2 else maxSingleSecondaryHits st ! i))
      \<and> (\<forall>i. singleSecondaryResults st' ! i =
               (if i \<in> idxs \<and> pairNotFinished st ! i
                then replicate (nat (maxSingleSecondaryHits st ! i * 2)) fresh
                else singleSecondaryResults st ! i)))"

text \<open>
  Stage functions for the evaluation below: a second (third) stage that flags exactly
  the pairs whose count of paired (single-end) secondary results exceeds their capacity
  and reports the barcode finished when there is none; a batch in which the second pair
  has 40 results for a capacity of 32.
\<close>

definition exampleSecondStage :: "WorkerState \<Rightarrow> bool \<times> WorkerState" where
  "exampleSecondStage s =
     (let flags = map (\<lambda>i. maxPairedSecondaryHits s ! i < nSecondaryResults s ! i)
                    [0 ..< totalPairsForBarcode s]
      in (\<not> list_ex (\<lambda>b. b) flags, s\<lparr>pairNotFinished := flags\<rparr>))"

definition exampleThirdStage :: "WorkerState \<Rightarrow> bool \<times> WorkerState" where
  "exampleThirdStage s =
     (let flags = map (\<lambda>i. maxSingleSecondaryHits s ! i < nSingleSecondaryResults s ! (2 * i))
                    [0 ..< totalPairsForBarcode s]
      in (\<not> list_ex (\<lambda>b. b) flags, s\<lparr>pairNotFinished := flags\<rparr>))"

definition exampleAligner :: TenXClusterAligner where
  "exampleAligner =
     \<lparr>align_first_stage = (\<lambda>s. (False, s)), align_second_stage = exampleSecondStage,
      align_third_stage = exampleThirdStage\<rparr>"

definition overflowBatch :: WorkerState where
  "overflowBatch =
     (scoredBatch (mkResult SingleHit SingleHit 1000))
       \<lparr>nSecondaryResults := [1, 40], nSingleSecondaryResults := [0, 0, 40, 0]\<rparr>"

section \<open>Theorems\<close>

lemma atoi_5000: "atoi ''5000'' = 5000"
  by (simp add: atoi_def isspace_def isdigit_def)

text \<open>
  C3. The claim: parsing \<open>-maxClusterSpan value\<close> sets \<open>maxClusterSpan\<close> to the value and
  leaves \<open>minPairsPerCluster\<close> unchanged. The code does the opposite: on the command line
  \<open>-maxClusterSpan 5000\<close>, applied to the constructor's defaults, the branch of lines
  332-339 stores 5000 in \<open>minPairsPerCluster\<close> (default 10) and leaves \<open>maxClusterSpan\<close>
  at its default 100000.
\<close>

theorem parse_maxClusterSpan_sets_minPairsPerCluster:
  "parse ext [''-maxClusterSpan'', ''5000''] 0 (TenXAlignerOptions_ctor base h p)
     = (True, 1, False, (TenXAlignerOptions_ctor base h p)\<lparr>minPairsPerCluster := 5000\<rparr>)
   \<and> maxClusterSpan ((TenXAlignerOptions_ctor base h p)\<lparr>minPairsPerCluster := 5000\<rparr>) = 100000
   \<and> minPairsPerCluster ((TenXAlignerOptions_ctor base h p)\<lparr>minPairsPerCluster := 5000\<rparr>) = 5000
   \<and> minPairsPerCluster (TenXAlignerOptions_ctor base h p) = 10"
  by (simp add: parse_def atoi_5000 TenXAlignerOptions_ctor_def)

lemma filterPaired_primary_flag:
  "filterPaired keep arr pairIdx ptr buf i fip = Inr (buf', ptr', fip') \<Longrightarrow> fip' \<Longrightarrow> fip"
proof (induction keep arr pairIdx ptr buf i fip arbitrary: buf' ptr' fip'
        rule: filterPaired.induct)
  case (1 keep arr pairIdx ptr buf i fip)
  note u = filterPaired.simps [of keep arr pairIdx ptr buf i fip]
  note e = "1.prems"(1)
  show ?case
  proof (cases "0 \<le> ptr + int pairIdx \<and> ptr + int pairIdx < int (length arr)")
    case False
    with e show ?thesis by (simp add: u)
  next
    case inb: True
    show ?thesis
    proof (cases "int i \<le> arr ! nat (ptr + int pairIdx)")
      case False
      with e inb "1.prems"(2) show ?thesis by (simp add: u)
    next
      case le: True
      show ?thesis
      proof (cases "i < length buf")
        case False
        with e inb le show ?thesis by (simp add: u)
      next
        case ib: True
        show ?thesis
        proof (cases "keep (buf ! i) (i \<noteq> 0 \<or> \<not> fip)")
          case k: True
          with e inb le ib have
            "filterPaired keep arr pairIdx ptr buf (i + 1) fip = Inr (buf', ptr', fip')"
            by (simp add: u)
          with "1.IH"(1) inb le ib k "1.prems"(2) show ?thesis by blast
        next
          case nk: False
          show ?thesis
          proof (cases "nat (arr ! nat (ptr + int pairIdx)) < length buf")
            case False
            with e inb le ib nk show ?thesis by (simp add: u)
          next
            case lb: True
            with e inb le ib nk have
              "filterPaired keep arr pairIdx (ptr - 1)
                 (buf[i := buf ! nat (arr ! nat (ptr + int pairIdx))]) i
                 (if i = 0 then False else fip) = Inr (buf', ptr', fip')"
              by (simp add: u)
            with "1.IH"(2) inb le ib nk lb "1.prems"(2)
            have "if i = 0 then False else fip" by blast
            then show ?thesis by (simp split: if_splits)
          qed
        qed
      qed
    qed
  qed
qed


lemma filterPaired_primary_kept:
  "filterPaired keep arr pairIdx ptr buf i fip = Inr (buf', ptr', fip') \<Longrightarrow> fip' \<Longrightarrow>
     buf' ! 0 = buf ! 0"
proof (induction keep arr pairIdx ptr buf i fip arbitrary: buf' ptr' fip'
        rule: filterPaired.induct)
  case (1 keep arr pairIdx ptr buf i fip)
  note u = filterPaired.simps [of keep arr pairIdx ptr buf i fip]
  note e = "1.prems"(1)
  show ?case
  proof (cases "0 \<le> ptr + int pairIdx \<and> ptr + int pairIdx < int (length arr)")
    case False
    with e show ?thesis by (simp add: u)
  next
    case inb: True
    show ?thesis
    proof (cases "int i \<le> arr ! nat (ptr + int pairIdx)")
      case False
      with e inb show ?thesis by (simp add: u)
    next
      case le: True
      show ?thesis
      proof (cases "i < length buf")
        case False
        with e inb le show ?thesis by (simp add: u)
      next
        case ib: True
        show ?thesis
        proof (cases "keep (buf ! i) (i \<noteq> 0 \<or> \<not> fip)")
          case k: True
          with e inb le ib have
            "filterPaired keep arr pairIdx ptr buf (i + 1) fip = Inr (buf', ptr', fip')"
            by (simp add: u)
          with "1.IH"(1) inb le ib k "1.prems"(2) show ?thesis by blast
        next
          case nk: False
          show ?thesis
          proof (cases "nat (arr ! nat (ptr + int pairIdx)) < length buf")
            case False
            with e inb le ib nk show ?thesis by (simp add: u)
          next
            case lb: True
            with e inb le ib nk have r:
              "filterPaired keep arr pairIdx (ptr - 1)
                 (buf[i := buf ! nat (arr ! nat (ptr + int pairIdx))]) i
                 (if i = 0 then False else fip) = Inr (buf', ptr', fip')"
              by (simp add: u)
            from filterPaired_primary_flag [OF r "1.prems"(2)] have i0: "i \<noteq> 0"
              by (simp split: if_splits)
            from "1.IH"(2) inb le ib nk lb r "1.prems"(2)
            have "buf' ! 0 = buf[i := buf ! nat (arr ! nat (ptr + int pairIdx))] ! 0"
              by blast
            with i0 show ?thesis by simp
          qed
        qed
      qed
    qed
  qed
qed

lemma emitPair_primary:
  assumes em: "emitPair ext ctx pairIdx st = Inr st'" and rw: "readWriterPresent ctx"
  shows "\<exists>w. written st' = written st @ [w]
           \<and> (w_firstIsPrimary w \<longrightarrow>
                w_results w ! 0
                  = applyForceSpacing ext (forceSpacing (options ctx)) (results st ! pairIdx ! 0))"
proof -
  let ?r0 = "reads st ! (2 * pairIdx)"
  let ?r1 = "reads st ! (2 * pairIdx + 1)"
  let ?buf = "(results st ! pairIdx)
                [0 := applyForceSpacing ext (forceSpacing (options ctx)) (results st ! pairIdx ! 0)]"
  let ?fp = "filterPaired (emitPass ext ctx ?r0 ?r1 (useful0 st ! pairIdx) (useful1 st ! pairIdx))
               (nSecondaryResults st) pairIdx (nSecondaryResults_ptr st) ?buf 0 True"
  from em have ne: "results st ! pairIdx \<noteq> []"
    by (auto simp: emitPair_def split: if_splits)
  from em obtain buf' ptr' fip where fp: "?fp = Inr (buf', ptr', fip)"
    by (cases ?fp) (auto simp: emitPair_def Let_def split: if_splits)
  from em fp rw have "\<exists>w. written st' = written st @ [w] \<and> w_results w = buf'
      \<and> w_firstIsPrimary w = fip"
    by (auto simp: emitPair_def Let_def split: if_splits sum.splits prod.splits)
  then obtain w where w: "written st' = written st @ [w]" "w_results w = buf'"
      "w_firstIsPrimary w = fip"
    by blast
  have "fip \<Longrightarrow> buf' ! 0
      = applyForceSpacing ext (forceSpacing (options ctx)) (results st ! pairIdx ! 0)"
  proof -
    assume fip
    from filterPaired_primary_kept [OF fp this] have "buf' ! 0 = ?buf ! 0" .
    with ne show ?thesis by simp
  qed
  with w show ?thesis by auto
qed

text \<open>
  C6. The forceSpacing policy on a pair's primary result: when forceSpacing is enabled
  and exactly one of the two statuses is SingleHit, both statuses become NotFound and
  both locations InvalidGenomeLocation, the other fields staying as they were; when
  forceSpacing is disabled, or the two mates agree on being SingleHit, the result is
  unchanged. The policy is applied before emission: whenever the emission of a pair
  hands the writer a first result that is the primary, that result is the policy's
  outcome on \<open>results[pairIdx][0]\<close>.
\<close>

theorem forceSpacing_policy:
  "(fs \<and> (status0 r = SingleHit) \<noteq> (status1 r = SingleHit) \<longrightarrow>
      applyForceSpacing ext fs r =
        r\<lparr>status0 := NotFound, status1 := NotFound,
          location0 := InvalidGenomeLocation ext, location1 := InvalidGenomeLocation ext\<rparr>)
   \<and> (\<not> fs \<or> (status0 r = SingleHit) = (status1 r = SingleHit) \<longrightarrow>
        applyForceSpacing ext fs r = r)
   \<and> (emitPair ext ctx pairIdx st = Inr st' \<and> readWriterPresent ctx \<longrightarrow>
        (\<exists>w. written st' = written st @ [w]
           \<and> (w_firstIsPrimary w \<longrightarrow>
                w_results w ! 0
                  = applyForceSpacing ext (forceSpacing (options ctx))
                      (results st ! pairIdx ! 0))))"
proof -
  have A: "fs \<and> (status0 r = SingleHit) \<noteq> (status1 r = SingleHit) \<longrightarrow>
      applyForceSpacing ext fs r =
        r\<lparr>status0 := NotFound, status1 := NotFound,
          location0 := InvalidGenomeLocation ext, location1 := InvalidGenomeLocation ext\<rparr>"
    by (auto simp: applyForceSpacing_def isOneLocation_def)
  have B: "\<not> fs \<or> (status0 r = SingleHit) = (status1 r = SingleHit) \<longrightarrow>
        applyForceSpacing ext fs r = r"
    by (auto simp: applyForceSpacing_def isOneLocation_def)
  have C: "emitPair ext ctx pairIdx st = Inr st' \<and> readWriterPresent ctx \<longrightarrow>
        (\<exists>w. written st' = written st @ [w]
           \<and> (w_firstIsPrimary w \<longrightarrow>
                w_results w ! 0
                  = applyForceSpacing ext (forceSpacing (options ctx))
                      (results st ! pairIdx ! 0)))"
    using emitPair_primary [of ext ctx pairIdx st st'] by blast
  show ?thesis
    by (rule conjI [OF A conjI [OF B C]])
qed

theorem forceSpacing_policy_witness:
  "applyForceSpacing (externalsWith everyRead) True (mkResult SingleHit NotFound 1000)
     = (mkResult SingleHit NotFound 1000)
         \<lparr>status0 := NotFound, status1 := NotFound, location0 := - 1, location1 := - 1\<rparr>
   \<and> applyForceSpacing (externalsWith everyRead) False (mkResult SingleHit NotFound 1000)
     = mkResult SingleHit NotFound 1000
   \<and> applyForceSpacing (externalsWith everyRead) True (mkResult SingleHit SingleHit 1000)
     = mkResult SingleHit SingleHit 1000
   \<and> (\<exists>s w. emitPair (externalsWith everyRead)
               (exampleContext\<lparr>options := exampleOptions\<lparr>forceSpacing := True\<rparr>\<rparr>) 0
               (scoredBatch (mkResult SingleHit NotFound 1000)) = Inr s
            \<and> written s = [w] \<and> w_firstIsPrimary w
            \<and> w_results w ! 0
                = (mkResult SingleHit NotFound 1000)
                    \<lparr>status0 := NotFound, status1 := NotFound,
                      location0 := - 1, location1 := - 1\<rparr>)"
proof -
  let ?ext = "externalsWith everyRead"
  let ?ctx = "exampleContext\<lparr>options := exampleOptions\<lparr>forceSpacing := True\<rparr>\<rparr>"
  let ?st = "scoredBatch (mkResult SingleHit NotFound 1000)"
  have pol: "applyForceSpacing ?ext True (mkResult SingleHit NotFound 1000)
     = (mkResult SingleHit NotFound 1000)
         \<lparr>status0 := NotFound, status1 := NotFound, location0 := - 1, location1 := - 1\<rparr>"
    "applyForceSpacing ?ext False (mkResult SingleHit NotFound 1000)
     = mkResult SingleHit NotFound 1000"
    "applyForceSpacing ?ext True (mkResult SingleHit SingleHit 1000)
     = mkResult SingleHit SingleHit 1000"
    using forceSpacing_policy [of True "mkResult SingleHit NotFound 1000" ?ext]
        forceSpacing_policy [of False "mkResult SingleHit NotFound 1000" ?ext]
        forceSpacing_policy [of True "mkResult SingleHit SingleHit 1000" ?ext]
    by (simp_all add: mkResult_def externalsWith_def)
  have ev: "case emitPair ?ext ?ctx 0 ?st of
              Inl e \<Rightarrow> False
            | Inr s \<Rightarrow> map w_firstIsPrimary (written s) = [True]"
    by (simp add: emitPair_def scoredBatch_def emptyBatch_def exampleContext_def
        exampleOptions_def externalsWith_def mkRead_def mkResult_def mkSingle_def emitPass_def
        pairPass_def bothMatesFlag_def everyRead_def applyForceSpacing_def
        isOneLocation_def nSecondaryResultsAt_def zeroStats_def updateStats_def countRead_def
        addFiltered_def Let_def filterPaired.simps filterSingle.simps)
  then obtain s where es: "emitPair ?ext ?ctx 0 ?st = Inr s"
    and fp: "map w_firstIsPrimary (written s) = [True]"
    by (cases "emitPair ?ext ?ctx 0 ?st") simp_all
  have rw: "readWriterPresent ?ctx" by (simp add: exampleContext_def)
  from forceSpacing_policy [where ext = ?ext and ctx = ?ctx and pairIdx = 0 and st = ?st
        and ?st' = s, THEN conjunct2, THEN conjunct2, rule_format, OF conjI [OF es rw]]
  obtain w where w: "written s = written ?st @ [w]"
    "w_firstIsPrimary w \<longrightarrow>
       w_results w ! 0 = applyForceSpacing ?ext (forceSpacing (options ?ctx)) (results ?st ! 0 ! 0)"
    by blast
  have e0: "written ?st = []" "forceSpacing (options ?ctx)"
    "results ?st ! 0 ! 0 = mkResult SingleHit NotFound 1000"
    by (simp_all add: scoredBatch_def emptyBatch_def)
  from w(1) e0(1) fp have ws: "written s = [w]" "w_firstIsPrimary w" by simp_all
  with w(2) e0 pol(1) have "w_results w ! 0
      = (mkResult SingleHit NotFound 1000)
          \<lparr>status0 := NotFound, status1 := NotFound, location0 := - 1, location1 := - 1\<rparr>"
    by simp
  with es ws pol show ?thesis by blast
qed

text \<open>
  C7. The claim: a pair whose identifiers do not match ends the program with exit code
  1 unless \<open>ignoreMismatchedIDs\<close> is set. With an index the loop of line 612 stores the
  incoming pair at \<open>reads[2 * totalPairsForBarcode]\<close> but checks \<open>reads[0]\<close> against
  \<open>reads[1]\<close>. Input: \<open>ignoreMismatchedIDs = false\<close>, the pairs (foo/1, foo/2) and then
  (abc/1, xyz/2), all reads useful. The buffering loop returns normally with both pairs
  in the batch; the path without an index, given the same pairs, exits with code 1 and
  the message naming abc/1 and xyz/2.
\<close>

theorem buffering_misses_mismatched_ids:
  "(case bufferLoop (externalsWith everyRead) exampleContext (mkResult NotFound NotFound 0)
          [(mkRead ''foo/1'' 100, mkRead ''foo/2'' 100),
           (mkRead ''abc/1'' 100, mkRead ''xyz/2'' 100)] emptyBatch of
      Inl e \<Rightarrow> False
    | Inr st \<Rightarrow>
        totalPairsForBarcode st = 2 \<and> reads st ! 2 = mkRead ''abc/1'' 100
        \<and> reads st ! 3 = mkRead ''xyz/2'' 100)
   \<and> \<not> readIdsMatch (externalsWith everyRead) (mkRead ''abc/1'' 100) (mkRead ''xyz/2'' 100)
   \<and> \<not> ignoreMismatchedIDs (options exampleContext)
   \<and> noIndexLoop (externalsWith everyRead) exampleContext
        [(mkRead ''foo/1'' 100, mkRead ''foo/2'' 100),
         (mkRead ''abc/1'' 100, mkRead ''xyz/2'' 100)] emptyBatch
      = Inl (SoftExit 1 (unmatchedMessage (mkRead ''abc/1'' 100) (mkRead ''xyz/2'' 100)))"
  by (simp add: bufferStep_def noIndexStep_def emptyBatch_def exampleContext_def
        exampleOptions_def externalsWith_def mkRead_def isUseful_def checkIdMatch_def stemOf_def
        addTotalReads_def zeroStats_def noIndexPass_def pairPass_def bothMatesFlag_def
        everyRead_def writeUnmapped_def addNotFound_def)

text \<open>
  C9. The claim: after buffering, every pair admitted to the batch has at least one
  useful read. The loop computes \<open>useful0[totalPairsForBarcode]\<close> and
  \<open>useful1[totalPairsForBarcode]\<close> from \<open>reads[0]\<close> and \<open>reads[1]\<close>, the first admitted
  pair, not from the pair just delivered. Input: \<open>minReadLength = 50\<close>, the pair
  (foo/1, foo/2) of length 100, then the pair (bar/1, bar/2) of length 10. The second pair
  is admitted at index 1 although neither of its reads is useful, and its flags are
  copies of the first pair's.
\<close>

theorem buffering_admits_useless_pair:
  "(case bufferLoop (externalsWith onlySingleHit) exampleContext (mkResult NotFound NotFound 0)
          [(mkRead ''foo/1'' 100, mkRead ''foo/2'' 100),
           (mkRead ''bar/1'' 10, mkRead ''bar/2'' 10)] emptyBatch of
      Inl e \<Rightarrow> False
    | Inr st \<Rightarrow>
        totalPairsForBarcode st = 2
        \<and> reads st ! 2 = mkRead ''bar/1'' 10 \<and> reads st ! 3 = mkRead ''bar/2'' 10
        \<and> \<not> isUseful exampleContext (reads st ! 2) \<and> \<not> isUseful exampleContext (reads st ! 3)
        \<and> useful0 st = [True, True] \<and> useful1 st = [True, True] \<and> written st = [])"
  by (simp add: bufferStep_def emptyBatch_def exampleContext_def exampleOptions_def
        externalsWith_def mkRead_def isUseful_def checkIdMatch_def stemOf_def
        addTotalReads_def zeroStats_def)

text \<open>
  C1. The claim: a record that fails the filter is removed by copying the last record
  over it and the pair's count of secondary results goes down by one, so that the count
  handed to the writer is the number of surviving records. Line 744 is
  \<open>nSecondaryResults--\<close>: it moves the pointer, and no count changes. Input: the filter
  passes SingleHit only; two pairs, each with one secondary; pair 0's records both pass;
  pair 1's primary fails and its secondary passes. After the loop the counts are still
  [1, 1] and the pointer is one element before the array; for pair 1 the writer gets the
  count 2 (read from pair 0's slot) and the surviving record twice, with
  \<open>firstIsPrimary = false\<close>. When instead the primary of pair 0 fails, the next loop test
  reads the element before the array.
\<close>

theorem filter_decrements_pointer_not_count:
  "(case emitLoop (externalsWith onlySingleHit) exampleContext [0, 1]
           (scoredBatch (mkResult SingleHit SingleHit 1000)) of
      Inl e \<Rightarrow> False
    | Inr st \<Rightarrow>
        nSecondaryResults st = [1, 1] \<and> nSecondaryResults_ptr st = - 1
        \<and> map w_nResults (written st) = [2, 2]
        \<and> map w_firstIsPrimary (written st) = [True, False]
        \<and> take 2 (w_results (written st ! 1))
            = [mkResult SingleHit SingleHit 7000, mkResult SingleHit SingleHit 7000])
   \<and> emitLoop (externalsWith onlySingleHit) exampleContext [0, 1]
           (scoredBatch (mkResult MultipleHits MultipleHits 1000)) = Inl OutOfBounds"
  by (simp add: emitPair_def scoredBatch_def emptyBatch_def exampleContext_def
        exampleOptions_def externalsWith_def mkRead_def mkResult_def mkSingle_def emitPass_def
        pairPass_def bothMatesFlag_def onlySingleHit_def applyForceSpacing_def
        isOneLocation_def nSecondaryResultsAt_def zeroStats_def updateStats_def countRead_def
        addFiltered_def Let_def filterPaired.simps filterSingle.simps)

lemma bufferStep_first_slot:
  assumes t: "totalPairsForBarcode st = 0"
    and lr: "2 \<le> length (reads st)"
    and l0: "1 \<le> length (useful0 st)" and l1: "1 \<le> length (useful1 st)"
    and ids: "ignoreMismatchedIDs (options ctx) \<or> readIdsMatch ext a b"
  shows "bufferStep ext ctx garbage (a, b) st =
     (let st1 = st\<lparr>reads := (reads st)[0 := a, 1 := b], stats := addTotalReads 2 (stats st),
                    useful0 := (useful0 st)[0 := isUseful ctx a],
                    useful1 := (useful1 st)[0 := isUseful ctx b]\<rparr>
      in if \<not> isUseful ctx a \<and> \<not> isUseful ctx b then
           (if uselessPairPass ext ctx a b
            then Inr (writeUnmapped ctx a b (uselessPairResult ext garbage)
                        (st1\<lparr>stats := addUselessReads 2 (stats st1)\<rparr>))
            else Inr (st1\<lparr>stats := addFiltered 2 (stats st1)\<rparr>))
         else if debugAsserts ctx \<and> \<not> 1 \<le> maxBarcodeSize (options ctx)
           then Inl AssertionFailed
           else Inr (st1\<lparr>totalPairsForBarcode := 1\<rparr>))"
proof -
  have len: "Suc 0 < length (reads st)" "reads st \<noteq> []"
      "useful0 st \<noteq> []" "useful1 st \<noteq> []"
    using lr l0 l1 by auto
  have r0: "(reads st)[0 := a, Suc 0 := b] ! 0 = a"
    using len by simp
  have r1: "(reads st)[0 := a, Suc 0 := b] ! Suc 0 = b"
    using len by simp
  show ?thesis
    using ids
    by (cases "ignoreMismatchedIDs (options ctx)")
       (simp_all add: bufferStep_def t r0 r1 len checkIdMatch_def Let_def)
qed

text \<open>
  C5, as the code has it. For a pair delivered while the batch is still empty (it
  occupies \<open>reads[0]\<close> and \<open>reads[1]\<close>) and that passes the identifier check: a read is
  useful iff its length is at least \<open>minReadLength\<close> and its count of N bases at most
  \<open>maxDist\<close>. If neither read is useful the pair is not added to the batch; when the pair
  passes the read filter it is handed to the writer, if there is one, as one result with
  both statuses NotFound and both locations invalid, and \<open>uselessReads\<close> grows by 2; when
  it fails the filter nothing is written and \<open>filtered\<close> grows by 2 instead. If at least
  one read is useful the pair enters the batch at index 0.
\<close>

theorem useless_pair_first_slot:
  assumes "totalPairsForBarcode st = 0"
    and "2 \<le> length (reads st)"
    and "1 \<le> length (useful0 st)" and "1 \<le> length (useful1 st)"
    and "ignoreMismatchedIDs (options ctx) \<or> readIdsMatch ext a b"
    and "\<not> debugAsserts ctx \<or> 1 \<le> maxBarcodeSize (options ctx)"
  shows "\<exists>st'. bufferStep ext ctx garbage (a, b) st = Inr st'
      \<and> isUseful ctx a
          = (minReadLength ctx \<le> getDataLength a \<and> int (countOfNs a) \<le> maxDist ctx)
      \<and> isUseful ctx b
          = (minReadLength ctx \<le> getDataLength b \<and> int (countOfNs b) \<le> maxDist ctx)
      \<and> (\<not> isUseful ctx a \<and> \<not> isUseful ctx b \<longrightarrow>
            totalPairsForBarcode st' = 0
            \<and> (uselessPairPass ext ctx a b \<longrightarrow>
                  written st' = written st @
                    (if readWriterPresent ctx
                     then [\<lparr>w_read0 = a, w_read1 = b,
                            w_results = [uselessPairResult ext garbage],
                            w_nResults = 1, w_singleResults = None, w_nSingleResults0 = 0,
                            w_nSingleResults1 = 0, w_firstIsPrimary = True\<rparr>]
                     else [])
                  \<and> status0 (uselessPairResult ext garbage) = NotFound
                  \<and> status1 (uselessPairResult ext garbage) = NotFound
                  \<and> location0 (uselessPairResult ext garbage) = InvalidGenomeLocation ext
                  \<and> location1 (uselessPairResult ext garbage) = InvalidGenomeLocation ext
                  \<and> uselessReads (stats st') = uselessReads (stats st) + 2
                  \<and> filtered (stats st') = filtered (stats st))
            \<and> (\<not> uselessPairPass ext ctx a b \<longrightarrow>
                  written st' = written st
                  \<and> uselessReads (stats st') = uselessReads (stats st)
                  \<and> filtered (stats st') = filtered (stats st) + 2))
      \<and> (isUseful ctx a \<or> isUseful ctx b \<longrightarrow>
            totalPairsForBarcode st' = 1 \<and> reads st' ! 0 = a \<and> reads st' ! 1 = b
            \<and> useful0 st' ! 0 = isUseful ctx a \<and> useful1 st' ! 0 = isUseful ctx b
            \<and> written st' = written st)"
proof -
  have len: "Suc 0 < length (reads st)" "reads st \<noteq> []"
      "useful0 st \<noteq> []" "useful1 st \<noteq> []"
    using assms(2,3,4) by auto
  note step = bufferStep_first_slot [OF assms(1-5)]
  show ?thesis
  proof (cases "\<not> isUseful ctx a \<and> \<not> isUseful ctx b")
    case True
    then show ?thesis
      unfolding step
      by (cases "uselessPairPass ext ctx a b")
         (simp_all add: Let_def writeUnmapped_def uselessPairResult_def addUselessReads_def
            addFiltered_def addTotalReads_def isUseful_def assms(1))
  next
    case False
    then show ?thesis
      unfolding step using assms(6) len
      by (auto simp: Let_def isUseful_def assms(1))
  qed
qed

theorem useless_pair_first_slot_witness:
  "totalPairsForBarcode emptyBatch = 0 \<and> 2 \<le> length (reads emptyBatch)
   \<and> 1 \<le> length (useful0 emptyBatch) \<and> 1 \<le> length (useful1 emptyBatch)
   \<and> readIdsMatch (externalsWith everyRead) (mkRead ''bar/1'' 10) (mkRead ''bar/2'' 10)
   \<and> 1 \<le> maxBarcodeSize (options exampleContext)
   \<and> \<not> isUseful exampleContext (mkRead ''bar/1'' 10)
   \<and> \<not> isUseful exampleContext (mkRead ''bar/2'' 10)
   \<and> uselessPairPass (externalsWith everyRead) exampleContext
        (mkRead ''bar/1'' 10) (mkRead ''bar/2'' 10)
   \<and> (\<exists>st'. bufferStep (externalsWith everyRead) exampleContext (mkResult SingleHit SingleHit 0)
               (mkRead ''bar/1'' 10, mkRead ''bar/2'' 10) emptyBatch = Inr st'
            \<and> totalPairsForBarcode st' = 0 \<and> length (written st') = 1
            \<and> uselessReads (stats st') = 2 \<and> filtered (stats st') = 0)
   \<and> isUseful exampleContext (mkRead ''foo/1'' 100)
   \<and> (\<exists>st'. bufferStep (externalsWith everyRead) exampleContext (mkResult SingleHit SingleHit 0)
               (mkRead ''foo/1'' 100, mkRead ''foo/2'' 100) emptyBatch = Inr st'
            \<and> totalPairsForBarcode st' = 1 \<and> written st' = [])"
  using useless_pair_first_slot [where st = emptyBatch and ctx = exampleContext
          and ext = "externalsWith everyRead" and a = "mkRead ''bar/1'' 10"
          and b = "mkRead ''bar/2'' 10" and garbage = "mkResult SingleHit SingleHit 0"]
        useless_pair_first_slot [where st = emptyBatch and ctx = exampleContext
          and ext = "externalsWith everyRead" and a = "mkRead ''foo/1'' 100"
          and b = "mkRead ''foo/2'' 100" and garbage = "mkResult SingleHit SingleHit 0"]
  by (auto simp: emptyBatch_def exampleContext_def exampleOptions_def externalsWith_def
        mkRead_def isUseful_def stemOf_def zeroStats_def uselessPairPass_def pairPass_def
        bothMatesFlag_def everyRead_def)

text \<open>
  C5 as stated fails on the filter: with a filter that passes SingleHit only, the first
  pair delivered, both reads shorter than \<open>minReadLength\<close>, is neither written nor counted
  in \<open>uselessReads\<close>; it is counted in \<open>filtered\<close>.
\<close>

theorem useless_pair_filtered_counterexample:
  "\<not> isUseful exampleContext (mkRead ''bar/1'' 10)
   \<and> \<not> isUseful exampleContext (mkRead ''bar/2'' 10)
   \<and> bufferStep (externalsWith onlySingleHit) exampleContext (mkResult NotFound NotFound 0)
         (mkRead ''bar/1'' 10, mkRead ''bar/2'' 10) emptyBatch
       = Inr (emptyBatch
                \<lparr>reads := [mkRead ''bar/1'' 10, mkRead ''bar/2'' 10, mkRead [] 0, mkRead [] 0],
                 stats := zeroStats\<lparr>totalReads := 2, filtered := 2\<rparr>\<rparr>)
   \<and> totalPairsForBarcode emptyBatch = 0
   \<and> written emptyBatch = []
   \<and> uselessReads (zeroStats\<lparr>totalReads := 2, filtered := 2\<rparr>) = 0
   \<and> filtered (zeroStats\<lparr>totalReads := 2, filtered := 2\<rparr>) = 2"
  by (simp add: bufferStep_def emptyBatch_def exampleContext_def exampleOptions_def
        externalsWith_def mkRead_def isUseful_def checkIdMatch_def stemOf_def
        addTotalReads_def zeroStats_def uselessPairPass_def pairPass_def bothMatesFlag_def
        onlySingleHit_def addFiltered_def numeral_eq_Suc)

lemma writeUnmapped_appends:
  assumes "status0 r = NotFound" "status1 r = NotFound"
    "location0 r = InvalidGenomeLocation ext" "location1 r = InvalidGenomeLocation ext"
  shows "\<exists>ws. written (writeUnmapped ctx r0 r1 r st) = written st @ ws
              \<and> list_all (isUnmappedWrite ext) ws"
  using assms by (simp add: writeUnmapped_def isUnmappedWrite_def)

lemma noIndexStep_writes:
  assumes "noIndexStep ext ctx pair st = Inr st'"
  shows "\<exists>ws. written st' = written st @ ws \<and> list_all (isUnmappedWrite ext) ws"
proof -
  have shape: "status0 (noIndexResult ext) = NotFound" "status1 (noIndexResult ext) = NotFound"
    "location0 (noIndexResult ext) = InvalidGenomeLocation ext"
    "location1 (noIndexResult ext) = InvalidGenomeLocation ext"
    by (simp_all add: noIndexResult_def zeroAlignmentResult_def)
  show ?thesis
  proof (cases "noIndexPass ext ctx (fst pair) (snd pair)")
    case True
    with assms have "st' = writeUnmapped ctx (fst pair) (snd pair) (noIndexResult ext)
        (st\<lparr>stats := addNotFound 1 (addTotalReads 2 (stats st))\<rparr>)"
      by (auto simp: noIndexStep_def Let_def split: if_splits)
    then show ?thesis
      using writeUnmapped_appends [OF shape, of ctx "fst pair" "snd pair"
          "st\<lparr>stats := addNotFound 1 (addTotalReads 2 (stats st))\<rparr>"]
      by simp
  next
    case False
    with assms have "written st' = written st"
      by (auto simp: noIndexStep_def Let_def split: if_splits)
    then show ?thesis by simp
  qed
qed

lemma bufferStep_writes:
  assumes "bufferStep ext ctx garbage pair st = Inr st'"
  shows "\<exists>ws. written st' = written st @ ws \<and> list_all (isUnmappedWrite ext) ws"
proof -
  from assms have
    "written st' = written st
     \<or> (\<exists>r0 r1. written st' = written st @
           [\<lparr>w_read0 = r0, w_read1 = r1, w_results = [uselessPairResult ext garbage],
             w_nResults = 1, w_singleResults = None, w_nSingleResults0 = 0,
             w_nSingleResults1 = 0, w_firstIsPrimary = True\<rparr>])"
    by (auto simp: bufferStep_def Let_def writeUnmapped_def split: if_splits option.splits)
  then show ?thesis
    by (auto simp: isUnmappedWrite_def uselessPairResult_def)
qed

lemma noIndexLoop_writes:
  "noIndexLoop ext ctx pairs st = Inr st' \<Longrightarrow>
     \<exists>ws. written st' = written st @ ws \<and> list_all (isUnmappedWrite ext) ws"
proof (induction pairs arbitrary: st)
  case Nil
  then show ?case by simp
next
  case (Cons pair rest)
  from Cons.prems obtain st1 where
    s1: "noIndexStep ext ctx pair st = Inr st1" and
    s2: "noIndexLoop ext ctx rest st1 = Inr st'"
    by (auto split: sum.splits)
  from noIndexStep_writes [OF s1] obtain ws1 where
    w1: "written st1 = written st @ ws1" "list_all (isUnmappedWrite ext) ws1" by blast
  from Cons.IH [OF s2] obtain ws2 where
    w2: "written st' = written st1 @ ws2" "list_all (isUnmappedWrite ext) ws2" by blast
  from w1 w2 have "written st' = written st @ (ws1 @ ws2)"
    "list_all (isUnmappedWrite ext) (ws1 @ ws2)" by simp_all
  then show ?case by blast
qed

lemma bufferLoop_writes:
  "bufferLoop ext ctx garbage pairs st = Inr st' \<Longrightarrow>
     \<exists>ws. written st' = written st @ ws \<and> list_all (isUnmappedWrite ext) ws"
proof (induction pairs arbitrary: st)
  case Nil
  then show ?case by simp
next
  case (Cons pair rest)
  from Cons.prems obtain st1 where
    s1: "bufferStep ext ctx garbage pair st = Inr st1" and
    s2: "bufferLoop ext ctx garbage rest st1 = Inr st'"
    by (auto split: sum.splits)
  from bufferStep_writes [OF s1] obtain ws1 where
    w1: "written st1 = written st @ ws1" "list_all (isUnmappedWrite ext) ws1" by blast
  from Cons.IH [OF s2] obtain ws2 where
    w2: "written st' = written st1 @ ws2" "list_all (isUnmappedWrite ext) ws2" by blast
  from w1 w2 have "written st' = written st @ (ws1 @ ws2)"
    "list_all (isUnmappedWrite ext) (ws1 @ ws2)" by simp_all
  then show ?case by blast
qed

text \<open>
  C10. Every call of the writer made by the path without an index and by the branch
  for a pair with no useful read hands over exactly one paired result
  (\<open>nResults = 1\<close>) with both statuses NotFound and both locations
  InvalidGenomeLocation, no single-end results (a null pointer and the counts 0, 0), and
  \<open>firstIsPrimary = true\<close>: for one turn of either loop, for the whole path without an
  index and for the whole buffering loop, the calls added to those already made all have
  this shape.
\<close>

theorem unmapped_writes_shape:
  "(noIndexStep ext ctx pair st = Inr st1 \<longrightarrow>
      (\<exists>ws. written st1 = written st @ ws \<and> list_all (isUnmappedWrite ext) ws))
   \<and> (bufferStep ext ctx garbage pair st = Inr st2 \<longrightarrow>
      (\<exists>ws. written st2 = written st @ ws \<and> list_all (isUnmappedWrite ext) ws))
   \<and> (noIndexPath ext ctx pairs st = Inr st3 \<longrightarrow>
      (\<exists>ws. written st3 = written st @ ws \<and> list_all (isUnmappedWrite ext) ws))
   \<and> (bufferLoop ext ctx garbage pairs st = Inr st4 \<longrightarrow>
      (\<exists>ws. written st4 = written st @ ws \<and> list_all (isUnmappedWrite ext) ws))"
proof -
  have "noIndexPath ext ctx pairs st = Inr st3 \<Longrightarrow>
      \<exists>ws. written st3 = written st @ ws \<and> list_all (isUnmappedWrite ext) ws"
  proof -
    assume "noIndexPath ext ctx pairs st = Inr st3"
    then obtain s where "noIndexLoop ext ctx pairs st = Inr s" "st3 = s\<lparr>supplierLive := False\<rparr>"
      by (auto simp: noIndexPath_def split: sum.splits)
    then show ?thesis using noIndexLoop_writes [of ext ctx pairs st s] by simp
  qed
  then show ?thesis
    using noIndexStep_writes bufferStep_writes bufferLoop_writes by blast
qed

theorem unmapped_writes_shape_witness:
  "(\<exists>st1. noIndexPath (externalsWith everyRead) exampleContext
             [(mkRead ''foo/1'' 100, mkRead ''foo/2'' 100)] emptyBatch = Inr st1
          \<and> length (written st1) = 1 \<and> list_all (isUnmappedWrite (externalsWith everyRead)) (written st1))
   \<and> (\<exists>st4. bufferLoop (externalsWith everyRead) exampleContext (mkResult SingleHit SingleHit 0)
             [(mkRead ''bar/1'' 10, mkRead ''bar/2'' 10)] emptyBatch = Inr st4
          \<and> length (written st4) = 1 \<and> list_all (isUnmappedWrite (externalsWith everyRead)) (written st4))"
proof -
  let ?ext = "externalsWith everyRead"
  have a: "noIndexPath ?ext exampleContext [(mkRead ''foo/1'' 100, mkRead ''foo/2'' 100)] emptyBatch
      = Inr (writeUnmapped exampleContext (mkRead ''foo/1'' 100) (mkRead ''foo/2'' 100) (noIndexResult ?ext)
              (emptyBatch\<lparr>stats := addNotFound 1 (addTotalReads 2 zeroStats)\<rparr>)\<lparr>supplierLive := False\<rparr>)"
    by (simp add: noIndexPath_def noIndexStep_def emptyBatch_def exampleContext_def
        exampleOptions_def externalsWith_def mkRead_def stemOf_def noIndexPass_def pairPass_def
        bothMatesFlag_def everyRead_def writeUnmapped_def)
  have b: "bufferLoop ?ext exampleContext (mkResult SingleHit SingleHit 0)
             [(mkRead ''bar/1'' 10, mkRead ''bar/2'' 10)] emptyBatch
      = Inr (writeUnmapped exampleContext (mkRead ''bar/1'' 10) (mkRead ''bar/2'' 10)
               (uselessPairResult ?ext (mkResult SingleHit SingleHit 0))
               (emptyBatch\<lparr>reads := (reads emptyBatch)[0 := mkRead ''bar/1'' 10, 1 := mkRead ''bar/2'' 10],
                  stats := addUselessReads 2 (addTotalReads 2 zeroStats)\<rparr>))"
    by (simp add: bufferStep_def emptyBatch_def exampleContext_def
        exampleOptions_def externalsWith_def mkRead_def stemOf_def uselessPairPass_def pairPass_def
        bothMatesFlag_def everyRead_def writeUnmapped_def checkIdMatch_def isUseful_def Let_def)
  show ?thesis
    using unmapped_writes_shape [of ?ext exampleContext _ emptyBatch _ _ _
        "[(mkRead ''foo/1'' 100, mkRead ''foo/2'' 100)]", THEN conjunct2, THEN conjunct2, THEN conjunct1, rule_format, OF a]
      unmapped_writes_shape [of ?ext exampleContext _ emptyBatch _ "mkResult SingleHit SingleHit 0" _
        "[(mkRead ''bar/1'' 10, mkRead ''bar/2'' 10)]", THEN conjunct2, THEN conjunct2, THEN conjunct2, rule_format, OF b]
    unfolding a b
    by (auto simp: writeUnmapped_def exampleContext_def emptyBatch_def)
qed












lemma growPairedAt_Inr:
  assumes "growPairedAt ctx fresh i st = Inr st'"
  shows "(\<not> pairNotFinished st ! i \<longrightarrow> st' = st)
       \<and> (pairNotFinished st ! i \<longrightarrow>
            i < length (maxPairedSecondaryHits st) \<and> i < length (results st)
            \<and> st' = st\<lparr>maxPairedSecondaryHits :=
                          (maxPairedSecondaryHits st)[i := maxPairedSecondaryHits st ! i * 2],
                        results :=
                          (results st)[i :=
                             replicate (nat (maxPairedSecondaryHits st ! i * 2 + 1)) fresh]\<rparr>)"
  using assms
  by (auto simp: growPairedAt_def split: if_splits option.splits)

lemma growSingleAt_Inr:
  assumes "growSingleAt ctx fresh i st = Inr st'"
  shows "(\<not> pairNotFinished st ! i \<longrightarrow> st' = st)
       \<and> (pairNotFinished st ! i \<longrightarrow>
            i < length (maxSingleSecondaryHits st) \<and> i < length (singleSecondaryResults st)
            \<and> st' = st\<lparr>maxSingleSecondaryHits :=
                          (maxSingleSecondaryHits st)[i := maxSingleSecondaryHits st ! i * 2],
                        singleSecondaryResults :=
                          (singleSecondaryResults st)[i :=
                             replicate (nat (maxSingleSecondaryHits st ! i * 2)) fresh]\<rparr>)"
  using assms
  by (auto simp: growSingleAt_def split: if_splits option.splits)

lemma growPaired_effect:
  "growPaired ctx fresh idxs st = Inr st' \<Longrightarrow> distinct idxs \<Longrightarrow>
     pairedGrown fresh (set idxs) st st'"
proof (induction idxs arbitrary: st)
  case Nil
  then show ?case by (simp add: pairedGrown_def)
next
  case (Cons i rest)
  from Cons.prems(1) obtain st1 where
    s1: "growPairedAt ctx fresh i st = Inr st1" and
    s2: "growPaired ctx fresh rest st1 = Inr st'"
    by (auto split: sum.splits)
  from Cons.prems(2) have d: "distinct rest" and ni: "i \<notin> set rest" by simp_all
  have g1: "pairedGrown fresh {i} st st1"
    using growPairedAt_Inr [OF s1]
    by (cases "pairNotFinished st ! i") (auto simp: pairedGrown_def nth_list_update)
  have g2: "pairedGrown fresh (set rest) st1 st'"
    by (rule Cons.IH [OF s2 d])
  show ?case
    using g1 g2 ni
    unfolding pairedGrown_def
    by (auto simp: nth_list_update)
qed


lemma growSingle_effect:
  "growSingle ctx fresh idxs st = Inr st' \<Longrightarrow> distinct idxs \<Longrightarrow>
     singleGrown fresh (set idxs) st st'"
proof (induction idxs arbitrary: st)
  case Nil
  then show ?case by (simp add: singleGrown_def)
next
  case (Cons i rest)
  from Cons.prems(1) obtain st1 where
    s1: "growSingleAt ctx fresh i st = Inr st1" and
    s2: "growSingle ctx fresh rest st1 = Inr st'"
    by (auto split: sum.splits)
  from Cons.prems(2) have d: "distinct rest" and ni: "i \<notin> set rest" by simp_all
  have g1: "singleGrown fresh {i} st st1"
    using growSingleAt_Inr [OF s1]
    by (cases "pairNotFinished st ! i") (auto simp: singleGrown_def nth_list_update)
  have g2: "singleGrown fresh (set rest) st1 st'"
    by (rule Cons.IH [OF s2 d])
  show ?case
    using g1 g2 ni
    unfolding singleGrown_def
    by (auto simp: nth_list_update)
qed

lemma secondStageLoop_done:
  "align_second_stage aligner st = (True, st1) \<Longrightarrow>
     secondStageLoop aligner ctx fresh st = Some (Inr st1)"
  by (subst secondStageLoop.simps) simp

lemma secondStageLoop_retry:
  "align_second_stage aligner st = (False, st1) \<Longrightarrow>
     secondStageLoop aligner ctx fresh st =
       (case growPaired ctx fresh [0 ..< totalPairsForBarcode st1] st1 of
          Inl e \<Rightarrow> Some (Inl e)
        | Inr st2 \<Rightarrow> secondStageLoop aligner ctx fresh st2)"
  by (subst secondStageLoop.simps) simp

lemma thirdStageLoop_done:
  "align_third_stage aligner st = (True, st1) \<Longrightarrow>
     thirdStageLoop aligner ctx fresh st = Some (Inr st1)"
  by (subst thirdStageLoop.simps) simp

lemma thirdStageLoop_retry:
  "align_third_stage aligner st = (False, st1) \<Longrightarrow>
     thirdStageLoop aligner ctx fresh st =
       (case growSingle ctx fresh [0 ..< totalPairsForBarcode st1] st1 of
          Inl e \<Rightarrow> Some (Inl e)
        | Inr st2 \<Rightarrow> thirdStageLoop aligner ctx fresh st2)"
  by (subst thirdStageLoop.simps) simp

lemma growPaired_completes:
  assumes "\<forall>i \<in> set idxs. i < length (pairNotFinished st)
             \<and> i < length (maxPairedSecondaryHits st) \<and> i < length (results st)
             \<and> pairedAssert ctx st i = None
             \<and> inInt64 (maxPairedSecondaryHits st ! i * 2)"
    and "distinct idxs"
  shows "\<exists>st'. growPaired ctx fresh idxs st = Inr st'"
  using assms
proof (induction idxs arbitrary: st)
  case Nil
  then show ?case by simp
next
  case (Cons i rest)
  from Cons.prems have here: "i < length (pairNotFinished st)"
      "i < length (maxPairedSecondaryHits st)" "i < length (results st)"
      "pairedAssert ctx st i = None" "inInt64 (maxPairedSecondaryHits st ! i * 2)"
    and ni: "i \<notin> set rest" and d: "distinct rest"
    by simp_all
  have "\<exists>st1. growPairedAt ctx fresh i st = Inr st1"
    using here by (simp add: growPairedAt_def)
  then obtain st1 where s1: "growPairedAt ctx fresh i st = Inr st1"
    by blast
  from growPairedAt_Inr [OF s1] have g1: "pairedGrown fresh {i} st st1"
    by (cases "pairNotFinished st ! i") (auto simp: pairedGrown_def nth_list_update)
  have ptr: "nSecondaryResults_ptr st1 = nSecondaryResults_ptr st"
    using growPairedAt_Inr [OF s1] by (cases "pairNotFinished st ! i") auto
  have "\<forall>j \<in> set rest. j < length (pairNotFinished st1)
             \<and> j < length (maxPairedSecondaryHits st1) \<and> j < length (results st1)
             \<and> pairedAssert ctx st1 j = None
             \<and> inInt64 (maxPairedSecondaryHits st1 ! j * 2)"
  proof
    fix j assume j: "j \<in> set rest"
    with ni have ne: "j \<noteq> i" by blast
    from Cons.prems(1) j have pj: "j < length (pairNotFinished st)"
      "j < length (maxPairedSecondaryHits st)" "j < length (results st)"
      "pairedAssert ctx st j = None" "inInt64 (maxPairedSecondaryHits st ! j * 2)"
      by simp_all
    from g1 ne have same: "maxPairedSecondaryHits st1 ! j = maxPairedSecondaryHits st ! j"
      "pairNotFinished st1 = pairNotFinished st"
      "nSecondaryResults st1 = nSecondaryResults st"
      "length (maxPairedSecondaryHits st1) = length (maxPairedSecondaryHits st)"
      "length (results st1) = length (results st)"
      by (simp_all add: pairedGrown_def)
    have "pairedAssert ctx st1 j = pairedAssert ctx st j"
      by (simp add: pairedAssert_def nSecondaryResultsAt_def same ptr)
    with pj same show "j < length (pairNotFinished st1)
             \<and> j < length (maxPairedSecondaryHits st1) \<and> j < length (results st1)
             \<and> pairedAssert ctx st1 j = None
             \<and> inInt64 (maxPairedSecondaryHits st1 ! j * 2)"
      by simp
  qed
  from Cons.IH [OF this d] obtain st' where "growPaired ctx fresh rest st1 = Inr st'"
    by blast
  with s1 show ?case by simp
qed

lemma growSingle_completes:
  assumes "\<forall>i \<in> set idxs. i < length (pairNotFinished st)
             \<and> i < length (maxSingleSecondaryHits st) \<and> i < length (singleSecondaryResults st)
             \<and> singleAssert ctx st i = None
             \<and> inInt64 (maxSingleSecondaryHits st ! i * 2)"
    and "distinct idxs"
  shows "\<exists>st'. growSingle ctx fresh idxs st = Inr st'"
  using assms
proof (induction idxs arbitrary: st)
  case Nil
  then show ?case by simp
next
  case (Cons i rest)
  from Cons.prems have here: "i < length (pairNotFinished st)"
      "i < length (maxSingleSecondaryHits st)" "i < length (singleSecondaryResults st)"
      "singleAssert ctx st i = None" "inInt64 (maxSingleSecondaryHits st ! i * 2)"
    and ni: "i \<notin> set rest" and d: "distinct rest"
    by simp_all
  have "\<exists>st1. growSingleAt ctx fresh i st = Inr st1"
    using here by (simp add: growSingleAt_def)
  then obtain st1 where s1: "growSingleAt ctx fresh i st = Inr st1"
    by blast
  from growSingleAt_Inr [OF s1] have g1: "singleGrown fresh {i} st st1"
    by (cases "pairNotFinished st ! i") (auto simp: singleGrown_def nth_list_update)
  have "\<forall>j \<in> set rest. j < length (pairNotFinished st1)
             \<and> j < length (maxSingleSecondaryHits st1) \<and> j < length (singleSecondaryResults st1)
             \<and> singleAssert ctx st1 j = None
             \<and> inInt64 (maxSingleSecondaryHits st1 ! j * 2)"
  proof
    fix j assume j: "j \<in> set rest"
    with ni have ne: "j \<noteq> i" by blast
    from Cons.prems(1) j have pj: "j < length (pairNotFinished st)"
      "j < length (maxSingleSecondaryHits st)" "j < length (singleSecondaryResults st)"
      "singleAssert ctx st j = None" "inInt64 (maxSingleSecondaryHits st ! j * 2)"
      by simp_all
    from g1 ne have same: "maxSingleSecondaryHits st1 ! j = maxSingleSecondaryHits st ! j"
      "pairNotFinished st1 = pairNotFinished st"
      "nSingleSecondaryResults st1 = nSingleSecondaryResults st"
      "length (maxSingleSecondaryHits st1) = length (maxSingleSecondaryHits st)"
      "length (singleSecondaryResults st1) = length (singleSecondaryResults st)"
      by (simp_all add: singleGrown_def)
    have "singleAssert ctx st1 j = singleAssert ctx st j"
      by (simp add: singleAssert_def same)
    with pj same show "j < length (pairNotFinished st1)
             \<and> j < length (maxSingleSecondaryHits st1) \<and> j < length (singleSecondaryResults st1)
             \<and> singleAssert ctx st1 j = None
             \<and> inInt64 (maxSingleSecondaryHits st1 ! j * 2)"
      by simp
  qed
  from Cons.IH [OF this d] obtain st' where "growSingle ctx fresh rest st1 = Inr st'"
    by blast
  with s1 show ?case by simp
qed

text \<open>
  C4. The retry loops of the second and third stage. When the stage function returns
  true the loop leaves with the state the stage produced, without resizing anything;
  when it returns false the loop runs the resize pass over the pairs of the batch and
  enters the stage again. A resize pass that completes doubles
  \<open>maxPairedSecondaryHits\<close> (\<open>maxSingleSecondaryHits\<close> in the third stage) of exactly the
  pairs below \<open>totalPairsForBarcode\<close> whose \<open>pairNotFinished\<close> flag is set and gives each of
  them a new buffer of the new capacity plus one (of the new capacity in the third
  stage); every other pair keeps its capacity and its buffer, and the arrays of the other
  stage are untouched. The pass does complete when the pairs of the batch lie inside the
  arrays, no \<open>_ASSERT\<close> fails and no doubling leaves the 64-bit range.
\<close>

theorem retry_loops:
  "(align_second_stage aligner st = (True, st1) \<longrightarrow>
      secondStageLoop aligner ctx fresh st = Some (Inr st1))
   \<and> (align_second_stage aligner st = (False, st1) \<longrightarrow>
      secondStageLoop aligner ctx fresh st =
        (case growPaired ctx fresh [0 ..< totalPairsForBarcode st1] st1 of
           Inl e \<Rightarrow> Some (Inl e)
         | Inr st2 \<Rightarrow> secondStageLoop aligner ctx fresh st2))
   \<and> (growPaired ctx fresh [0 ..< totalPairsForBarcode st] st = Inr st' \<longrightarrow>
      (\<forall>i. (i < totalPairsForBarcode st \<and> pairNotFinished st ! i \<longrightarrow>
               maxPairedSecondaryHits st' ! i = 2 * maxPairedSecondaryHits st ! i
               \<and> results st' ! i
                   = replicate (nat (2 * maxPairedSecondaryHits st ! i + 1)) fresh)
          \<and> (\<not> (i < totalPairsForBarcode st \<and> pairNotFinished st ! i) \<longrightarrow>
               maxPairedSecondaryHits st' ! i = maxPairedSecondaryHits st ! i
               \<and> results st' ! i = results st ! i))
      \<and> maxSingleSecondaryHits st' = maxSingleSecondaryHits st
      \<and> singleSecondaryResults st' = singleSecondaryResults st)
   \<and> (align_third_stage aligner st = (True, st1) \<longrightarrow>
      thirdStageLoop aligner ctx freshSingle st = Some (Inr st1))
   \<and> (align_third_stage aligner st = (False, st1) \<longrightarrow>
      thirdStageLoop aligner ctx freshSingle st =
        (case growSingle ctx freshSingle [0 ..< totalPairsForBarcode st1] st1 of
           Inl e \<Rightarrow> Some (Inl e)
         | Inr st2 \<Rightarrow> thirdStageLoop aligner ctx freshSingle st2))
   \<and> (growSingle ctx freshSingle [0 ..< totalPairsForBarcode st] st = Inr st'' \<longrightarrow>
      (\<forall>i. (i < totalPairsForBarcode st \<and> pairNotFinished st ! i \<longrightarrow>
               maxSingleSecondaryHits st'' ! i = 2 * maxSingleSecondaryHits st ! i
               \<and> singleSecondaryResults st'' ! i
                   = replicate (nat (2 * maxSingleSecondaryHits st ! i)) freshSingle)
          \<and> (\<not> (i < totalPairsForBarcode st \<and> pairNotFinished st ! i) \<longrightarrow>
               maxSingleSecondaryHits st'' ! i = maxSingleSecondaryHits st ! i
               \<and> singleSecondaryResults st'' ! i = singleSecondaryResults st ! i))
      \<and> maxPairedSecondaryHits st'' = maxPairedSecondaryHits st
      \<and> results st'' = results st)
   \<and> ((\<forall>i < totalPairsForBarcode st.
          i < length (pairNotFinished st) \<and> i < length (maxPairedSecondaryHits st)
          \<and> i < length (results st) \<and> pairedAssert ctx st i = None
          \<and> inInt64 (maxPairedSecondaryHits st ! i * 2)) \<longrightarrow>
      (\<exists>s. growPaired ctx fresh [0 ..< totalPairsForBarcode st] st = Inr s))
   \<and> ((\<forall>i < totalPairsForBarcode st.
          i < length (pairNotFinished st) \<and> i < length (maxSingleSecondaryHits st)
          \<and> i < length (singleSecondaryResults st) \<and> singleAssert ctx st i = None
          \<and> inInt64 (maxSingleSecondaryHits st ! i * 2)) \<longrightarrow>
      (\<exists>s. growSingle ctx freshSingle [0 ..< totalPairsForBarcode st] st = Inr s))"
proof -
  have PC: "(\<forall>i < totalPairsForBarcode st.
          i < length (pairNotFinished st) \<and> i < length (maxPairedSecondaryHits st)
          \<and> i < length (results st) \<and> pairedAssert ctx st i = None
          \<and> inInt64 (maxPairedSecondaryHits st ! i * 2)) \<longrightarrow>
      (\<exists>s. growPaired ctx fresh [0 ..< totalPairsForBarcode st] st = Inr s)"
    by (rule impI) (rule growPaired_completes, simp_all)
  have SC: "(\<forall>i < totalPairsForBarcode st.
          i < length (pairNotFinished st) \<and> i < length (maxSingleSecondaryHits st)
          \<and> i < length (singleSecondaryResults st) \<and> singleAssert ctx st i = None
          \<and> inInt64 (maxSingleSecondaryHits st ! i * 2)) \<longrightarrow>
      (\<exists>s. growSingle ctx freshSingle [0 ..< totalPairsForBarcode st] st = Inr s)"
    by (rule impI) (rule growSingle_completes, simp_all)
  have P: "growPaired ctx fresh [0 ..< totalPairsForBarcode st] st = Inr st' \<longrightarrow>
      (\<forall>i. (i < totalPairsForBarcode st \<and> pairNotFinished st ! i \<longrightarrow>
               maxPairedSecondaryHits st' ! i = 2 * maxPairedSecondaryHits st ! i
               \<and> results st' ! i
                   = replicate (nat (2 * maxPairedSecondaryHits st ! i + 1)) fresh)
          \<and> (\<not> (i < totalPairsForBarcode st \<and> pairNotFinished st ! i) \<longrightarrow>
               maxPairedSecondaryHits st' ! i = maxPairedSecondaryHits st ! i
               \<and> results st' ! i = results st ! i))
      \<and> maxSingleSecondaryHits st' = maxSingleSecondaryHits st
      \<and> singleSecondaryResults st' = singleSecondaryResults st"
  proof
    assume "growPaired ctx fresh [0 ..< totalPairsForBarcode st] st = Inr st'"
    then have "pairedGrown fresh (set [0 ..< totalPairsForBarcode st]) st st'"
      by (rule growPaired_effect) simp
    then show "(\<forall>i. (i < totalPairsForBarcode st \<and> pairNotFinished st ! i \<longrightarrow>
               maxPairedSecondaryHits st' ! i = 2 * maxPairedSecondaryHits st ! i
               \<and> results st' ! i
                   = replicate (nat (2 * maxPairedSecondaryHits st ! i + 1)) fresh)
          \<and> (\<not> (i < totalPairsForBarcode st \<and> pairNotFinished st ! i) \<longrightarrow>
               maxPairedSecondaryHits st' ! i = maxPairedSecondaryHits st ! i
               \<and> results st' ! i = results st ! i))
      \<and> maxSingleSecondaryHits st' = maxSingleSecondaryHits st
      \<and> singleSecondaryResults st' = singleSecondaryResults st"
      by (simp add: pairedGrown_def mult.commute)
  qed
  have S: "growSingle ctx freshSingle [0 ..< totalPairsForBarcode st] st = Inr st'' \<longrightarrow>
      (\<forall>i. (i < totalPairsForBarcode st \<and> pairNotFinished st ! i \<longrightarrow>
               maxSingleSecondaryHits st'' ! i = 2 * maxSingleSecondaryHits st ! i
               \<and> singleSecondaryResults st'' ! i
                   = replicate (nat (2 * maxSingleSecondaryHits st ! i)) freshSingle)
          \<and> (\<not> (i < totalPairsForBarcode st \<and> pairNotFinished st ! i) \<longrightarrow>
               maxSingleSecondaryHits st'' ! i = maxSingleSecondaryHits st ! i
               \<and> singleSecondaryResults st'' ! i = singleSecondaryResults st ! i))
      \<and> maxPairedSecondaryHits st'' = maxPairedSecondaryHits st
      \<and> results st'' = results st"
  proof
    assume "growSingle ctx freshSingle [0 ..< totalPairsForBarcode st] st = Inr st''"
    then have "singleGrown freshSingle (set [0 ..< totalPairsForBarcode st]) st st''"
      by (rule growSingle_effect) simp
    then show "(\<forall>i. (i < totalPairsForBarcode st \<and> pairNotFinished st ! i \<longrightarrow>
               maxSingleSecondaryHits st'' ! i = 2 * maxSingleSecondaryHits st ! i
               \<and> singleSecondaryResults st'' ! i
                   = replicate (nat (2 * maxSingleSecondaryHits st ! i)) freshSingle)
          \<and> (\<not> (i < totalPairsForBarcode st \<and> pairNotFinished st ! i) \<longrightarrow>
               maxSingleSecondaryHits st'' ! i = maxSingleSecondaryHits st ! i
               \<and> singleSecondaryResults st'' ! i = singleSecondaryResults st ! i))
      \<and> maxPairedSecondaryHits st'' = maxPairedSecondaryHits st
      \<and> results st'' = results st"
      by (simp add: singleGrown_def mult.commute)
  qed
  have L2: "align_second_stage aligner st = (True, st1) \<longrightarrow>
      secondStageLoop aligner ctx fresh st = Some (Inr st1)"
    by (rule impI) (rule secondStageLoop_done)
  have R2: "align_second_stage aligner st = (False, st1) \<longrightarrow>
      secondStageLoop aligner ctx fresh st =
        (case growPaired ctx fresh [0 ..< totalPairsForBarcode st1] st1 of
           Inl e \<Rightarrow> Some (Inl e)
         | Inr st2 \<Rightarrow> secondStageLoop aligner ctx fresh st2)"
    by (rule impI) (rule secondStageLoop_retry)
  have L3: "align_third_stage aligner st = (True, st1) \<longrightarrow>
      thirdStageLoop aligner ctx freshSingle st = Some (Inr st1)"
    by (rule impI) (rule thirdStageLoop_done)
  have R3: "align_third_stage aligner st = (False, st1) \<longrightarrow>
      thirdStageLoop aligner ctx freshSingle st =
        (case growSingle ctx freshSingle [0 ..< totalPairsForBarcode st1] st1 of
           Inl e \<Rightarrow> Some (Inl e)
         | Inr st2 \<Rightarrow> thirdStageLoop aligner ctx freshSingle st2)"
    by (rule impI) (rule thirdStageLoop_retry)
  show ?thesis
    by (rule conjI [OF L2 conjI [OF R2 conjI [OF P conjI [OF L3 conjI [OF R3
          conjI [OF S conjI [OF PC SC]]]]]]])
qed


lemmas example_defs =
  exampleSecondStage_def exampleThirdStage_def exampleAligner_def overflowBatch_def
  scoredBatch_def emptyBatch_def exampleContext_def exampleOptions_def Let_def
  growPairedAt_def growSingleAt_def pairedAssert_def singleAssert_def
  nSecondaryResultsAt_def inInt64_def

lemma upt_0_2: "[0 ..< 2] = [0, Suc 0]"
  by (simp add: upt_rec)

theorem retry_loops_witness:
  "secondStageLoop exampleAligner exampleContext (mkResult NotFound NotFound 0) overflowBatch
     = Some (Inr (overflowBatch
          \<lparr>pairNotFinished := [False, False], maxPairedSecondaryHits := [32, 64],
           results := (results overflowBatch)
                        [1 := replicate 65 (mkResult NotFound NotFound 0)]\<rparr>))
   \<and> thirdStageLoop exampleAligner exampleContext (mkSingle NotFound) overflowBatch
     = Some (Inr (overflowBatch
          \<lparr>pairNotFinished := [False, False], maxSingleSecondaryHits := [32, 64],
           singleSecondaryResults := (singleSecondaryResults overflowBatch)
                        [1 := replicate 64 (mkSingle NotFound)]\<rparr>))
   \<and> growPaired exampleContext (mkResult NotFound NotFound 0) [0 ..< 2]
        (overflowBatch\<lparr>pairNotFinished := [False, True]\<rparr>)
     = Inr (overflowBatch
          \<lparr>pairNotFinished := [False, True], maxPairedSecondaryHits := [32, 64],
           results := (results overflowBatch)
                        [1 := replicate 65 (mkResult NotFound NotFound 0)]\<rparr>)
   \<and> growSingle exampleContext (mkSingle NotFound) [0 ..< 2]
        (overflowBatch\<lparr>pairNotFinished := [False, True]\<rparr>)
     = Inr (overflowBatch
          \<lparr>pairNotFinished := [False, True], maxSingleSecondaryHits := [32, 64],
           singleSecondaryResults := (singleSecondaryResults overflowBatch)
                        [1 := replicate 64 (mkSingle NotFound)]\<rparr>)"
proof -
  let ?fresh = "mkResult NotFound NotFound 0"
  let ?freshS = "mkSingle NotFound"
  let ?s1 = "overflowBatch\<lparr>pairNotFinished := [False, True]\<rparr>"
  let ?g = "overflowBatch\<lparr>pairNotFinished := [False, True], maxPairedSecondaryHits := [32, 64],
              results := (results overflowBatch)[1 := replicate 65 ?fresh]\<rparr>"
  let ?g' = "overflowBatch\<lparr>pairNotFinished := [False, False], maxPairedSecondaryHits := [32, 64],
              results := (results overflowBatch)[1 := replicate 65 ?fresh]\<rparr>"
  let ?h = "overflowBatch\<lparr>pairNotFinished := [False, True], maxSingleSecondaryHits := [32, 64],
              singleSecondaryResults := (singleSecondaryResults overflowBatch)[1 := replicate 64 ?freshS]\<rparr>"
  let ?h' = "overflowBatch\<lparr>pairNotFinished := [False, False], maxSingleSecondaryHits := [32, 64],
              singleSecondaryResults := (singleSecondaryResults overflowBatch)[1 := replicate 64 ?freshS]\<rparr>"
  have a: "align_second_stage exampleAligner overflowBatch = (False, ?s1)"
    by (simp add: example_defs upt_0_2)
  have t: "totalPairsForBarcode ?s1 = 2"
    by (simp add: example_defs)
  have g: "growPaired exampleContext ?fresh [0 ..< totalPairsForBarcode ?s1] ?s1 = Inr ?g"
    unfolding t upt_0_2 by (simp add: example_defs)
  have b: "align_second_stage exampleAligner ?g = (True, ?g')"
    by (simp add: example_defs upt_0_2)
  have a3: "align_third_stage exampleAligner overflowBatch = (False, ?s1)"
    by (simp add: example_defs upt_0_2)
  have h: "growSingle exampleContext ?freshS [0 ..< totalPairsForBarcode ?s1] ?s1 = Inr ?h"
    unfolding t upt_0_2 by (simp add: example_defs)
  have b3: "align_third_stage exampleAligner ?h = (True, ?h')"
    by (simp add: example_defs upt_0_2)
  note r1 = retry_loops [where aligner = exampleAligner and ctx = exampleContext
      and fresh = ?fresh and freshSingle = ?freshS and st = overflowBatch and ?st1.0 = ?s1]
  note r2 = retry_loops [where aligner = exampleAligner and ctx = exampleContext
      and fresh = ?fresh and freshSingle = ?freshS and st = ?g and ?st1.0 = ?g']
  note r3 = retry_loops [where aligner = exampleAligner and ctx = exampleContext
      and fresh = ?fresh and freshSingle = ?freshS and st = ?h and ?st1.0 = ?h']
  have "secondStageLoop exampleAligner exampleContext ?fresh overflowBatch
          = secondStageLoop exampleAligner exampleContext ?fresh ?g"
    using r1 a g by simp
  moreover have "secondStageLoop exampleAligner exampleContext ?fresh ?g = Some (Inr ?g')"
    using r2 b by simp
  moreover have "thirdStageLoop exampleAligner exampleContext ?freshS overflowBatch
          = thirdStageLoop exampleAligner exampleContext ?freshS ?h"
    using r1 a3 h by simp
  moreover have "thirdStageLoop exampleAligner exampleContext ?freshS ?h = Some (Inr ?h')"
    using r3 b3 by simp
  ultimately show ?thesis using g h unfolding t by simp
qed

text \<open>
  C2. The claim: after the first stage the worker always goes on to the second and
  third stage, emission and cleanup. Lines 666-667 return when \<open>align_first_stage\<close>
  reports the barcode finished: the result is the state the first stage left. For the
  batch of two scored pairs nothing has then been written and the allocator, the
  buffers and the supplier are still held; when the first stage reports the barcode not
  finished, the same batch is written (two calls of the writer) and everything is
  released.
\<close>

theorem first_stage_finished_returns_early:
  "alignBarcode \<lparr>align_first_stage = (\<lambda>s. (True, s)), align_second_stage = second,
                  align_third_stage = third\<rparr> ext ctx fresh freshSingle st = Some (Inr st)
   \<and> alignBarcode (exampleAligner\<lparr>align_first_stage := (\<lambda>s. (True, s))\<rparr>)
        (externalsWith everyRead) exampleContext (mkResult NotFound NotFound 0)
        (mkSingle NotFound) (scoredBatch (mkResult SingleHit SingleHit 1000))
      = Some (Inr (scoredBatch (mkResult SingleHit SingleHit 1000)))
   \<and> written (scoredBatch (mkResult SingleHit SingleHit 1000)) = []
   \<and> allocatorLive (scoredBatch (mkResult SingleHit SingleHit 1000))
   \<and> buffersLive (scoredBatch (mkResult SingleHit SingleHit 1000))
   \<and> supplierLive (scoredBatch (mkResult SingleHit SingleHit 1000))
   \<and> (case alignBarcode exampleAligner (externalsWith everyRead) exampleContext
              (mkResult NotFound NotFound 0) (mkSingle NotFound)
              (scoredBatch (mkResult SingleHit SingleHit 1000)) of
         Some (Inr s) \<Rightarrow>
           map w_nResults (written s) = [2, 2] \<and> \<not> allocatorLive s \<and> \<not> buffersLive s
           \<and> \<not> supplierLive s
       | _ \<Rightarrow> False)"
proof -
  let ?b = "scoredBatch (mkResult SingleHit SingleHit 1000)"
  have early: "\<And>st. alignBarcode \<lparr>align_first_stage = (\<lambda>s. (True, s)), align_second_stage = second,
                  align_third_stage = third\<rparr> ext ctx fresh freshSingle st = Some (Inr st)"
    by (simp add: alignBarcode_def)
  have early2: "alignBarcode (exampleAligner\<lparr>align_first_stage := (\<lambda>s. (True, s))\<rparr>)
        (externalsWith everyRead) exampleContext (mkResult NotFound NotFound 0)
        (mkSingle NotFound) ?b = Some (Inr ?b)"
    by (simp add: alignBarcode_def)
  have held: "written ?b = []" "allocatorLive ?b" "buffersLive ?b" "supplierLive ?b"
    by (simp_all add: scoredBatch_def emptyBatch_def)
  have s2: "align_second_stage exampleAligner ?b = (True, ?b)"
    by (simp add: example_defs upt_0_2)
  have s3: "align_third_stage exampleAligner ?b = (True, ?b)"
    by (simp add: example_defs upt_0_2)
  have l2: "secondStageLoop exampleAligner exampleContext (mkResult NotFound NotFound 0) ?b
      = Some (Inr ?b)"
    by (rule secondStageLoop_done [OF s2])
  have l3: "thirdStageLoop exampleAligner exampleContext (mkSingle NotFound) ?b = Some (Inr ?b)"
    by (rule thirdStageLoop_done [OF s3])
  have t: "totalPairsForBarcode ?b = 2"
    by (simp add: scoredBatch_def)
  have f1: "align_first_stage exampleAligner ?b = (False, ?b)"
    by (simp add: exampleAligner_def)
  have e: "case emitLoop (externalsWith everyRead) exampleContext [0, Suc 0] ?b of
             Inl x \<Rightarrow> False
           | Inr s \<Rightarrow> map w_nResults (written s) = [2, 2] \<and> allocatorLive s"
    by (simp add: emitPair_def scoredBatch_def emptyBatch_def exampleContext_def
        exampleOptions_def externalsWith_def mkRead_def mkResult_def mkSingle_def emitPass_def
        pairPass_def bothMatesFlag_def everyRead_def applyForceSpacing_def
        isOneLocation_def nSecondaryResultsAt_def zeroStats_def updateStats_def countRead_def
        addFiltered_def Let_def filterPaired.simps filterSingle.simps)
  obtain s where es: "emitLoop (externalsWith everyRead) exampleContext [0, Suc 0] ?b = Inr s"
    and ws: "map w_nResults (written s) = [2, 2]"
    using e
    by (cases "emitLoop (externalsWith everyRead) exampleContext [0, Suc 0] ?b") simp_all
  have full: "case alignBarcode exampleAligner (externalsWith everyRead) exampleContext
              (mkResult NotFound NotFound 0) (mkSingle NotFound) ?b of
         Some (Inr s) \<Rightarrow>
           map w_nResults (written s) = [2, 2] \<and> \<not> allocatorLive s \<and> \<not> buffersLive s
           \<and> \<not> supplierLive s
       | _ \<Rightarrow> False"
    by (simp add: alignBarcode_def f1 l2 l3 t upt_0_2 es ws cleanup_def del: emitLoop.simps)
  show ?thesis
    using early early2 held full by simp
qed

end
